theory Spec2Isabelle
  imports
    Main
    "HOL-Library.Word"
    "HOL-Library.Product_Lexorder"
    "HOL-Library.Multiset"
begin

unbundle bit_operations_syntax

section \<open>Common vocabulary\<close>

type_synonym uint8_t = "8 word"
type_synonym byte = "8 word"

text \<open>
  Reason codes pushed on the diagnostic error queue by \<open>ERR_raise(ERR_LIB_SSL, ...)\<close>.
  Only the codes raised by the functions embedded below are listed.
\<close>

datatype ssl_reason =
    SSL_R_DANE_NOT_ENABLED
  | SSL_R_DANE_ALREADY_ENABLED
  | SSL_R_CONTEXT_NOT_DANE_ENABLED
  | SSL_R_ERROR_SETTING_TLSA_BASE_DOMAIN
  | SSL_R_DANE_TLSA_BAD_DATA_LENGTH
  | SSL_R_DANE_TLSA_BAD_CERTIFICATE_USAGE
  | SSL_R_DANE_TLSA_BAD_SELECTOR
  | SSL_R_DANE_TLSA_BAD_MATCHING_TYPE
  | SSL_R_DANE_TLSA_BAD_DIGEST_LENGTH
  | SSL_R_DANE_TLSA_NULL_DATA
  | SSL_R_DANE_TLSA_BAD_CERTIFICATE
  | SSL_R_DANE_TLSA_BAD_PUBLIC_KEY
  | ERR_R_CRYPTO_LIB
  | ERR_R_SHOULD_NOT_HAVE_BEEN_CALLED

text \<open>
  The conversions \<open>(int)dlen\<close> and \<open>(size_t)ilen\<close> of \<open>dane_tlsa_add\<close>: \<open>int\<close> is 32 bits
  wide and two's complement, \<open>size_t\<close> is 64 bits wide.
\<close>

definition int_of_size_t :: "nat \<Rightarrow> int" where
  "int_of_size_t n = sint (word_of_nat n :: 32 word)"

definition size_t_of_int :: "int \<Rightarrow> nat" where
  "size_t_of_int i = unat (word_of_int i :: 64 word)"

section \<open>DANE engine\<close>

subsection \<open>Data model\<close>

text \<open>
  Objects of the external collaborators. A digest handle carries the output size that
  \<open>EVP_MD_get_size\<close> reports; a parsed certificate carries the public key that
  \<open>X509_get0_pubkey\<close> extracts, if any.
\<close>

datatype EVP_MD = EVP_MD (md_nid: int) (EVP_MD_get_size: int)
datatype EVP_PKEY = EVP_PKEY "byte list"
datatype X509 = X509 (cert_der: "byte list") (X509_get0_pubkey: "EVP_PKEY option")

text \<open>
  Modelled from the spec: the TLSA field constants of the public DANE header, which is not
  part of the source at hand. Usage ranges over 0..3 with the end-entity usages being
  PKIX-EE(1) and DANE-EE(3), the selector is certificate(0) or public key(1), and the
  built-in matching types are full(0), sha2-256(1) and sha2-512(2).
\<close>

definition DANETLS_USAGE_PKIX_TA :: uint8_t where "DANETLS_USAGE_PKIX_TA = 0"
definition DANETLS_USAGE_PKIX_EE :: uint8_t where "DANETLS_USAGE_PKIX_EE = 1"
definition DANETLS_USAGE_DANE_TA :: uint8_t where "DANETLS_USAGE_DANE_TA = 2"
definition DANETLS_USAGE_DANE_EE :: uint8_t where "DANETLS_USAGE_DANE_EE = 3"
definition DANETLS_USAGE_LAST :: uint8_t where "DANETLS_USAGE_LAST = DANETLS_USAGE_DANE_EE"

definition DANETLS_SELECTOR_CERT :: uint8_t where "DANETLS_SELECTOR_CERT = 0"
definition DANETLS_SELECTOR_SPKI :: uint8_t where "DANETLS_SELECTOR_SPKI = 1"
definition DANETLS_SELECTOR_LAST :: uint8_t where "DANETLS_SELECTOR_LAST = DANETLS_SELECTOR_SPKI"

definition DANETLS_MATCHING_FULL :: uint8_t where "DANETLS_MATCHING_FULL = 0"
definition DANETLS_MATCHING_2256 :: uint8_t where "DANETLS_MATCHING_2256 = 1"
definition DANETLS_MATCHING_2512 :: uint8_t where "DANETLS_MATCHING_2512 = 2"
definition DANETLS_MATCHING_LAST :: uint8_t where "DANETLS_MATCHING_LAST = DANETLS_MATCHING_2512"

definition DANETLS_USAGE_BIT :: "uint8_t \<Rightarrow> 32 word" where
  "DANETLS_USAGE_BIT u = push_bit (unat u) 1"

definition DANETLS_TA_MASK :: "32 word" where
  "DANETLS_TA_MASK = DANETLS_USAGE_BIT DANETLS_USAGE_PKIX_TA OR DANETLS_USAGE_BIT DANETLS_USAGE_DANE_TA"

definition NID_undef :: int where "NID_undef = 0"
definition NID_sha256 :: int where "NID_sha256 = 672"
definition NID_sha512 :: int where "NID_sha512 = 674"

text \<open>
  \<open>struct dane_ctx_st\<close>, the per-factory registry: two tables indexed by matching type
  (\<open>NULL\<close> until the registry is enabled) and the highest index they hold.
\<close>

record dane_ctx_st =
  mdevp :: "EVP_MD option list option"
  mdord :: "uint8_t list option"
  mdmax :: uint8_t

text \<open>\<open>danetls_record\<close>: one TLSA record as stored on the connection.\<close>

record danetls_record =
  usage :: uint8_t
  selector :: uint8_t
  mtype :: uint8_t
  data :: "byte list"
  dlen :: nat
  spki :: "EVP_PKEY option"

text \<open>
  \<open>SSL_DANE\<close>, the per-connection state. The field \<open>dctx\<close> points to the factory's
  registry; the model carries the registry it points to. \<open>trecs\<close> and \<open>certs\<close> are stacks
  that are \<open>NULL\<close> (\<open>None\<close>) until allocated.
\<close>

record SSL_DANE =
  dctx :: dane_ctx_st
  trecs :: "danetls_record list option"
  certs :: "X509 list option"
  mtlsa :: "danetls_record option"
  mcert :: "X509 option"
  umask :: "32 word"
  mdpth :: int
  pdpth :: int
  dane_flags :: "64 word"

subsection \<open>The built-in registry\<close>

text \<open>The static table \<open>dane_mds\<close>: matching type, priority ordinal, digest NID.\<close>

definition dane_mds :: "(uint8_t \<times> uint8_t \<times> int) list" where
  "dane_mds =
    [(DANETLS_MATCHING_FULL, 0, NID_undef),
     (DANETLS_MATCHING_2256, 1, NID_sha256),
     (DANETLS_MATCHING_2512, 2, NID_sha512)]"

text \<open>
  \<open>dane_ctx_enable\<close>. \<open>digestbynid\<close> is the digest provider's \<open>EVP_get_digestbynid\<close>;
  \<open>alloc_ok\<close> says whether both \<open>OPENSSL_zalloc\<close> calls succeed.
\<close>

fun dane_install_defaults ::
  "(int \<Rightarrow> EVP_MD option) \<Rightarrow> (uint8_t \<times> uint8_t \<times> int) list \<Rightarrow>
   EVP_MD option list \<times> uint8_t list \<Rightarrow> EVP_MD option list \<times> uint8_t list" where
  "dane_install_defaults digestbynid [] tabs = tabs"
| "dane_install_defaults digestbynid ((mt, ord, nid) # rest) (evp, ords) =
    (if nid = NID_undef \<or> digestbynid nid = None
     then dane_install_defaults digestbynid rest (evp, ords)
     else dane_install_defaults digestbynid rest
            (evp[unat mt := digestbynid nid], ords[unat mt := ord]))"

definition dane_ctx_enable ::
  "(int \<Rightarrow> EVP_MD option) \<Rightarrow> bool \<Rightarrow> dane_ctx_st \<Rightarrow> int \<times> dane_ctx_st" where
  "dane_ctx_enable digestbynid alloc_ok dc =
    (let mdmax0 = DANETLS_MATCHING_LAST; n = unat mdmax0 + 1 in
     if mdevp dc \<noteq> None then (1, dc)
     else if \<not> alloc_ok then (0, dc)
     else
       (case dane_install_defaults digestbynid dane_mds (replicate n None, replicate n 0) of
          (evp, ords) \<Rightarrow> (1, dc\<lparr>mdevp := Some evp, mdord := Some ords, mdmax := mdmax0\<rparr>)))"

text \<open>
  Table reads. The C code indexes the arrays directly; an index outside the table (or a
  \<open>NULL\<close> table) is undefined behaviour there, and the model reads the zero entry.
\<close>

definition mdevp_at :: "dane_ctx_st \<Rightarrow> uint8_t \<Rightarrow> EVP_MD option" where
  "mdevp_at dc m =
    (case mdevp dc of
       None \<Rightarrow> None
     | Some tab \<Rightarrow> if unat m < length tab then tab ! unat m else None)"

definition mdord_at :: "dane_ctx_st \<Rightarrow> uint8_t \<Rightarrow> uint8_t" where
  "mdord_at dc m =
    (case mdord dc of
       None \<Rightarrow> 0
     | Some tab \<Rightarrow> if unat m < length tab then tab ! unat m else 0)"

definition tlsa_md_get :: "SSL_DANE \<Rightarrow> uint8_t \<Rightarrow> EVP_MD option" where
  "tlsa_md_get dane m =
    (if m > mdmax (dctx dane) then None else mdevp_at (dctx dane) m)"

subsection \<open>Adding a TLSA record\<close>

text \<open>
  What \<open>dane_tlsa_add\<close> obtains from its collaborators: the two DER decoders, each
  returning the parsed object and the number of bytes consumed (\<open>p - data\<close>), and the
  outcome of each allocation on the way.
\<close>

record dane_env =
  d2i_X509 :: "byte list \<Rightarrow> (X509 \<times> int) option"
  d2i_PUBKEY :: "byte list \<Rightarrow> (EVP_PKEY \<times> int) option"
  zalloc_ok :: bool
  malloc_ok :: bool
  sk_X509_new_ok :: bool
  sk_X509_push_ok :: bool
  sk_insert_ok :: bool

text \<open>
  The block "Validate and cache full certificate or public key". The result is either the
  early return (return value, raised reason, state) or the record and state with which
  the function goes on.
\<close>

definition tlsa_cache_full ::
  "dane_env \<Rightarrow> SSL_DANE \<Rightarrow> danetls_record \<Rightarrow> byte list \<Rightarrow> int \<Rightarrow>
   (int \<times> ssl_reason option \<times> SSL_DANE) + (danetls_record \<times> SSL_DANE)" where
  "tlsa_cache_full env dane t bytes ilen =
    (if selector t = DANETLS_SELECTOR_CERT then
       (case d2i_X509 env (take (nat ilen) bytes) of
          None \<Rightarrow> Inl (0, Some SSL_R_DANE_TLSA_BAD_CERTIFICATE, dane)
        | Some (cert, consumed) \<Rightarrow>
            if consumed < 0 \<or> dlen t \<noteq> size_t_of_int consumed
            then Inl (0, Some SSL_R_DANE_TLSA_BAD_CERTIFICATE, dane)
            else if X509_get0_pubkey cert = None
            then Inl (0, Some SSL_R_DANE_TLSA_BAD_CERTIFICATE, dane)
            else if DANETLS_USAGE_BIT (usage t) AND DANETLS_TA_MASK = 0
            then Inr (t, dane)
            else if certs dane = None \<and> \<not> sk_X509_new_ok env
            then Inl (-1, Some ERR_R_CRYPTO_LIB, dane)
            else
              (let stack = (case certs dane of None \<Rightarrow> [] | Some cs \<Rightarrow> cs) in
               if \<not> sk_X509_push_ok env
               then Inl (-1, Some ERR_R_CRYPTO_LIB, dane\<lparr>certs := Some stack\<rparr>)
               else Inr (t, dane\<lparr>certs := Some (stack @ [cert])\<rparr>)))
     else if selector t = DANETLS_SELECTOR_SPKI then
       (case d2i_PUBKEY env (take (nat ilen) bytes) of
          None \<Rightarrow> Inl (0, Some SSL_R_DANE_TLSA_BAD_PUBLIC_KEY, dane)
        | Some (pkey, consumed) \<Rightarrow>
            if consumed < 0 \<or> dlen t \<noteq> size_t_of_int consumed
            then Inl (0, Some SSL_R_DANE_TLSA_BAD_PUBLIC_KEY, dane)
            else if usage t = DANETLS_USAGE_DANE_TA
            then Inr (t\<lparr>spki := Some pkey\<rparr>, dane)
            else Inr (t, dane))
     else Inr (t, dane))"

text \<open>
  The loop that finds the insertion point: the index of the first stored record at which
  the loop breaks, or the number of records when it runs to the end.
\<close>

fun tlsa_find_pos ::
  "dane_ctx_st \<Rightarrow> uint8_t \<Rightarrow> uint8_t \<Rightarrow> uint8_t \<Rightarrow> danetls_record list \<Rightarrow> nat" where
  "tlsa_find_pos dc u sel m [] = 0"
| "tlsa_find_pos dc u sel m (r # rest) =
    (if usage r > u then Suc (tlsa_find_pos dc u sel m rest)
     else if usage r < u then 0
     else if selector r > sel then Suc (tlsa_find_pos dc u sel m rest)
     else if selector r < sel then 0
     else if mdord_at dc (mtype r) > mdord_at dc m then Suc (tlsa_find_pos dc u sel m rest)
     else 0)"

text \<open>
  \<open>sk_danetls_record_insert\<close> of the generic stack: at position \<open>i\<close>, or at the end when
  \<open>i\<close> is not a valid position.
\<close>

definition sk_insert :: "'a list \<Rightarrow> 'a \<Rightarrow> nat \<Rightarrow> 'a list" where
  "sk_insert st x i = (if i \<ge> length st then st @ [x] else take i st @ x # drop i st)"

text \<open>
  \<open>dane_tlsa_add\<close>. The data pointer is \<open>None\<close> when \<open>NULL\<close>; \<open>n\<close> is \<open>dlen\<close>. The result
  is the return value, the reason raised (if any) and the state the call leaves behind.
  \<open>OPENSSL_malloc\<close> hands out no block of zero bytes, so the copy of the data fails for
  \<open>dlen = 0\<close> whatever \<open>malloc_ok\<close> says.
\<close>

definition dane_tlsa_add ::
  "dane_env \<Rightarrow> SSL_DANE \<Rightarrow> uint8_t \<Rightarrow> uint8_t \<Rightarrow> uint8_t \<Rightarrow> byte list option \<Rightarrow> nat \<Rightarrow>
   int \<times> ssl_reason option \<times> SSL_DANE" where
  "dane_tlsa_add env dane u sel m d n =
    (let ilen = int_of_size_t n;
         md = (if m \<noteq> DANETLS_MATCHING_FULL then tlsa_md_get dane m else None) in
     case trecs dane of
       None \<Rightarrow> (-1, Some SSL_R_DANE_NOT_ENABLED, dane)
     | Some recs \<Rightarrow>
       if ilen < 0 \<or> n \<noteq> size_t_of_int ilen
       then (0, Some SSL_R_DANE_TLSA_BAD_DATA_LENGTH, dane)
       else if u > DANETLS_USAGE_LAST
       then (0, Some SSL_R_DANE_TLSA_BAD_CERTIFICATE_USAGE, dane)
       else if sel > DANETLS_SELECTOR_LAST
       then (0, Some SSL_R_DANE_TLSA_BAD_SELECTOR, dane)
       else if m \<noteq> DANETLS_MATCHING_FULL \<and> md = None
       then (0, Some SSL_R_DANE_TLSA_BAD_MATCHING_TYPE, dane)
       else if (case md of None \<Rightarrow> False
                | Some h \<Rightarrow> EVP_MD_get_size h \<le> 0 \<or> n \<noteq> size_t_of_int (EVP_MD_get_size h))
       then (0, Some SSL_R_DANE_TLSA_BAD_DIGEST_LENGTH, dane)
       else
         (case d of
            None \<Rightarrow> (0, Some SSL_R_DANE_TLSA_NULL_DATA, dane)
          | Some bytes \<Rightarrow>
              if \<not> zalloc_ok env then (-1, None, dane)
              else if \<not> malloc_ok env \<or> n = 0 then (-1, None, dane)
              else
                (let t = \<lparr>usage = u, selector = sel, mtype = m, data = take n bytes,
                          dlen = n, spki = None\<rparr> in
                 case (if m = DANETLS_MATCHING_FULL
                       then tlsa_cache_full env dane t bytes ilen
                       else Inr (t, dane)) of
                   Inl early \<Rightarrow> early
                 | Inr (t', dane') \<Rightarrow>
                     (let i = tlsa_find_pos (dctx dane') u sel m recs in
                      if \<not> sk_insert_ok env then (-1, Some ERR_R_CRYPTO_LIB, dane')
                      else (1, None,
                            dane'\<lparr>trecs := Some (sk_insert recs t' i),
                                  umask := umask dane' OR DANETLS_USAGE_BIT u\<rparr>)))))"

section \<open>Connection object\<close>

text \<open>
  Modelled from the spec: the early-data state enumeration of the local header, which is
  not part of the source at hand; the values are those the state machine of section 4.3
  names.
\<close>

datatype SSL_EARLY_DATA_STATE =
    SSL_EARLY_DATA_NONE
  | SSL_EARLY_DATA_CONNECT_RETRY
  | SSL_EARLY_DATA_CONNECTING
  | SSL_EARLY_DATA_WRITE_RETRY
  | SSL_EARLY_DATA_WRITING
  | SSL_EARLY_DATA_WRITE_FLUSH
  | SSL_EARLY_DATA_UNAUTH_WRITING
  | SSL_EARLY_DATA_ACCEPT_RETRY
  | SSL_EARLY_DATA_ACCEPTING
  | SSL_EARLY_DATA_READ_RETRY
  | SSL_EARLY_DATA_READING
  | SSL_EARLY_DATA_FINISHED_READING

text \<open>
  The fields of \<open>SSL_CONNECTION\<close> that the embedded functions read or write. \<open>ext_hostname\<close>
  is \<open>ext.hostname\<close> (the SNI hint, \<open>None\<close> when \<open>NULL\<close>), \<open>ext_early_data\<close> is
  \<open>ext.early_data\<close>, \<open>param_hosts\<close> is the list of reference identifiers held by the
  verification parameters \<open>param\<close>, and \<open>is_dtls\<close> is the DTLS flag of the method's
  encryption table. Pointers to other objects (factory, session) are passed to each
  function as the object pointed to.
\<close>

record SSL_CONNECTION =
  version :: int
  is_dtls :: bool
  server :: bool
  hit :: bool
  handshake_func :: bool
  shutdown :: int
  options :: "64 word"
  mode :: "32 word"
  min_proto_version :: int
  max_proto_version :: int
  max_cert_list :: nat
  read_ahead :: int
  verify_mode :: "32 word"
  verify_depth :: int
  max_early_data :: "32 word"
  early_data_state :: SSL_EARLY_DATA_STATE
  ext_early_data :: int
  ext_hostname :: "string option"
  param_hosts :: "string list"
  sid_ctx :: "byte list"
  sid_ctx_length :: nat
  dane :: SSL_DANE

text \<open>
  \<open>SSL_dane_tlsa_add\<close>: the public entry point. The connection is \<open>None\<close> when the handle
  is not a TLS connection (\<open>sc == NULL\<close>).
\<close>

definition SSL_dane_tlsa_add ::
  "dane_env \<Rightarrow> SSL_CONNECTION option \<Rightarrow> uint8_t \<Rightarrow> uint8_t \<Rightarrow> uint8_t \<Rightarrow>
   byte list option \<Rightarrow> nat \<Rightarrow> int \<times> ssl_reason option \<times> SSL_CONNECTION option" where
  "SSL_dane_tlsa_add env s u sel m d n =
    (case s of
       None \<Rightarrow> (0, None, None)
     | Some sc \<Rightarrow>
         (case dane_tlsa_add env (dane sc) u sel m d n of
            (rv, err, dane') \<Rightarrow> (rv, err, Some (sc\<lparr>dane := dane'\<rparr>))))"

text \<open>\<open>sk_danetls_record_num\<close> of the generic stack: \<open>-1\<close> for a \<open>NULL\<close> stack.\<close>

definition sk_num :: "'a list option \<Rightarrow> int" where
  "sk_num st = (case st of None \<Rightarrow> -1 | Some xs \<Rightarrow> int (length xs))"

subsection \<open>Enabling DANE on a connection\<close>

text \<open>
  The outcome of the fallible steps of \<open>SSL_dane_enable\<close>: the string duplication inside
  \<open>SSL_set_tlsext_host_name\<close>, the call \<open>X509_VERIFY_PARAM_set1_host\<close>, and the
  allocation \<open>sk_danetls_record_new_null\<close>.
\<close>

record enable_env =
  strdup_ok :: bool
  set1_host_ok :: bool
  sk_new_null_ok :: bool

text \<open>
  Modelled from the spec: \<open>SSL_set_tlsext_host_name\<close> and \<open>X509_VERIFY_PARAM_set1_host\<close>,
  which live outside the source at hand. The first sets the default peer-identity hint
  (SNI); as the comment at its call says it rejects empty names, and it rejects names
  longer than a host name may be (\<open>TLSEXT_MAXLEN_host_name\<close>, 255 bytes); when it fails on
  a connection without hint, the connection is as it was. The second sets the primary
  reference identifier: it first drops the identifiers held so far, accepts an empty name
  by storing none (which disables hostname checks, as the same comment says), and
  otherwise stores the name unless an allocation fails.
\<close>

definition TLSEXT_MAXLEN_host_name :: nat where
  "TLSEXT_MAXLEN_host_name = 255"

definition SSL_set_tlsext_host_name ::
  "enable_env \<Rightarrow> SSL_CONNECTION \<Rightarrow> string \<Rightarrow> int \<times> SSL_CONNECTION" where
  "SSL_set_tlsext_host_name env sc name =
    (if name = [] \<or> length name > TLSEXT_MAXLEN_host_name \<or> \<not> strdup_ok env then (0, sc)
     else (1, sc\<lparr>ext_hostname := Some name\<rparr>))"

definition X509_VERIFY_PARAM_set1_host ::
  "enable_env \<Rightarrow> SSL_CONNECTION \<Rightarrow> string \<Rightarrow> int \<times> SSL_CONNECTION" where
  "X509_VERIFY_PARAM_set1_host env sc name =
    (if name = [] then (1, sc\<lparr>param_hosts := []\<rparr>)
     else if \<not> set1_host_ok env then (0, sc\<lparr>param_hosts := []\<rparr>)
     else (1, sc\<lparr>param_hosts := [name]\<rparr>))"

text \<open>
  \<open>SSL_dane_enable\<close>. \<open>ctx_dane\<close> is the factory registry \<open>s->ctx->dane\<close>. The result is
  the return value, the reason raised and the connection the call leaves behind.
\<close>

definition SSL_dane_enable ::
  "enable_env \<Rightarrow> dane_ctx_st \<Rightarrow> SSL_CONNECTION option \<Rightarrow> string \<Rightarrow>
   int \<times> ssl_reason option \<times> SSL_CONNECTION option" where
  "SSL_dane_enable env ctx_dane s basedomain =
    (case s of
       None \<Rightarrow> (0, None, None)
     | Some sc \<Rightarrow>
         if mdmax ctx_dane = 0
         then (0, Some SSL_R_CONTEXT_NOT_DANE_ENABLED, Some sc)
         else if trecs (dane sc) \<noteq> None
         then (0, Some SSL_R_DANE_ALREADY_ENABLED, Some sc)
         else
           (case (if ext_hostname sc = None
                  then SSL_set_tlsext_host_name env sc basedomain
                  else (1, sc)) of
              (r1, sc1) \<Rightarrow>
                if r1 = 0
                then (-1, Some SSL_R_ERROR_SETTING_TLSA_BASE_DOMAIN, Some sc1)
                else
                  (case X509_VERIFY_PARAM_set1_host env sc1 basedomain of
                     (r2, sc2) \<Rightarrow>
                       if r2 = 0
                       then (-1, Some SSL_R_ERROR_SETTING_TLSA_BASE_DOMAIN, Some sc2)
                       else
                         (let sc3 = sc2\<lparr>dane := (dane sc2)
                                \<lparr>mdpth := -1, pdpth := -1, dctx := ctx_dane,
                                 trecs := (if sk_new_null_ok env then Some [] else None)\<rparr>\<rparr>
                          in if trecs (dane sc3) = None
                             then (-1, Some ERR_R_CRYPTO_LIB, Some sc3)
                             else (1, None, Some sc3)))))"

section \<open>Session cache\<close>

subsection \<open>Sessions, hash and equality\<close>

text \<open>
  \<open>SSL_SESSION\<close>: the key fields, the application-context length, the not-resumable flag,
  the reference count and the expiry timestamp. \<open>session_id\<close> is the fixed array of
  \<open>SSL_MAX_SSL_SESSION_ID_LENGTH\<close> bytes (the size of the session-id field, 32), of
  which the first \<open>session_id_length\<close> are the id.
\<close>

definition SSL_MAX_SSL_SESSION_ID_LENGTH :: nat where
  "SSL_MAX_SSL_SESSION_ID_LENGTH = 32"

record SSL_SESSION =
  ssl_version :: int
  session_id_length :: nat
  session_id :: "byte list"
  sess_sid_ctx_length :: nat
  not_resumable :: bool
  sess_references :: int
  sess_expiry :: int

text \<open>
  \<open>memset\<close>, \<open>memcpy\<close> and \<open>memcmp\<close> on byte arrays. \<open>memcpy\<close> overwrites the first \<open>n\<close>
  bytes of the destination; a copy longer than the destination shows as an array grown
  beyond its size. \<open>memcmp\<close> returns the difference of the first pair of bytes that
  differ. Reading past the end of an array is undefined in C; the model stops comparing
  there.
\<close>

definition memcpy :: "byte list \<Rightarrow> byte list \<Rightarrow> nat \<Rightarrow> byte list" where
  "memcpy dst src n = take n src @ drop n dst"

fun memcmp :: "byte list \<Rightarrow> byte list \<Rightarrow> nat \<Rightarrow> int" where
  "memcmp (x # xs) (y # ys) (Suc n) =
     (if x = y then memcmp xs ys n else int (unat x) - int (unat y))"
| "memcmp xs ys n = 0"

text \<open>\<open>ssl_session_hash\<close>; \<open>unsigned long\<close> is 64 bits wide.\<close>

definition ssl_session_hash :: "SSL_SESSION \<Rightarrow> 64 word" where
  "ssl_session_hash a =
    (let sid = (if session_id_length a < 4
                then memcpy (replicate 4 0) (session_id a) (session_id_length a)
                else session_id a)
     in ucast (sid ! 0) OR push_bit 8 (ucast (sid ! 1)) OR
        push_bit 16 (ucast (sid ! 2)) OR push_bit 24 (ucast (sid ! 3)))"

text \<open>\<open>ssl_session_cmp\<close>: zero means equal.\<close>

definition ssl_session_cmp :: "SSL_SESSION \<Rightarrow> SSL_SESSION \<Rightarrow> int" where
  "ssl_session_cmp a b =
    (if ssl_version a \<noteq> ssl_version b then 1
     else if session_id_length a \<noteq> session_id_length b then 1
     else memcmp (session_id a) (session_id b) (session_id_length a))"

text \<open>
  A session object as the library lays it out: the id array has its declared size and the
  id length fits in it.
\<close>

definition session_wf :: "SSL_SESSION \<Rightarrow> bool" where
  "session_wf a \<longleftrightarrow>
     length (session_id a) = SSL_MAX_SSL_SESSION_ID_LENGTH \<and>
     session_id_length a \<le> SSL_MAX_SSL_SESSION_ID_LENGTH"

subsection \<open>The factory's cache\<close>

text \<open>
  The session-cache part of \<open>SSL_CTX\<close>. \<open>sessions\<close> holds the entries of the hash table;
  \<open>sess_connect_good\<close> and \<open>sess_accept_good\<close> are the two good-handshake counters of
  \<open>stats\<close>; the hooks are \<open>None\<close> when not registered. The new-session hook returns
  whether it kept the session it was handed.
\<close>

record SSL_CTX =
  session_cache_mode :: "32 word"
  sessions :: "SSL_SESSION list"
  sess_connect_good :: "32 word"
  sess_accept_good :: "32 word"
  new_session_cb :: "(SSL_SESSION \<Rightarrow> bool) option"
  remove_session_cb :: "nat option"

text \<open>
  Modelled from the spec: constants and the macro \<open>SSL_CONNECTION_IS_TLS13\<close> of the
  headers, which are not part of the source at hand: the cache-mode bits (client, server,
  auto-sweep disabled, internal storage disabled), the peer-verification bit, the two
  option bits and the protocol version numbers, with the values the public header
  publishes.
\<close>

definition SSL_SESS_CACHE_CLIENT :: "32 word" where "SSL_SESS_CACHE_CLIENT = 0x0001"
definition SSL_SESS_CACHE_SERVER :: "32 word" where "SSL_SESS_CACHE_SERVER = 0x0002"
definition SSL_SESS_CACHE_NO_AUTO_CLEAR :: "32 word" where "SSL_SESS_CACHE_NO_AUTO_CLEAR = 0x0080"
definition SSL_SESS_CACHE_NO_INTERNAL_STORE :: "32 word" where
  "SSL_SESS_CACHE_NO_INTERNAL_STORE = 0x0200"
definition SSL_VERIFY_PEER :: "32 word" where "SSL_VERIFY_PEER = 0x01"
definition SSL_OP_NO_TICKET :: "64 word" where "SSL_OP_NO_TICKET = push_bit 14 1"
definition SSL_OP_NO_ANTI_REPLAY :: "64 word" where "SSL_OP_NO_ANTI_REPLAY = push_bit 24 1"
definition TLS1_3_VERSION :: int where "TLS1_3_VERSION = 0x0304"
definition TLS_ANY_VERSION :: int where "TLS_ANY_VERSION = 0x10000"

definition SSL_CONNECTION_IS_TLS13 :: "SSL_CONNECTION \<Rightarrow> bool" where
  "SSL_CONNECTION_IS_TLS13 s \<longleftrightarrow>
     \<not> is_dtls s \<and> version s \<ge> TLS1_3_VERSION \<and> version s \<noteq> TLS_ANY_VERSION"

text \<open>
  Modelled from the spec: the cache operations of the session module and of the generic
  hash table, which live outside the source at hand. Retrieval finds an entry with the
  probe's hash that compares equal to it; insertion adds the session, replacing an entry
  equal to it (the collection is deduplicating); the sweep removes every entry whose
  expiry timestamp has passed the given time.
\<close>

definition lh_SSL_SESSION_retrieve :: "SSL_SESSION list \<Rightarrow> SSL_SESSION \<Rightarrow> SSL_SESSION option" where
  "lh_SSL_SESSION_retrieve tab r =
     find (\<lambda>e. ssl_session_hash e = ssl_session_hash r \<and> ssl_session_cmp e r = 0) tab"

definition SSL_CTX_add_session :: "SSL_CTX \<Rightarrow> SSL_SESSION \<Rightarrow> SSL_CTX" where
  "SSL_CTX_add_session c a =
     c\<lparr>sessions := a # filter (\<lambda>e. \<not> (ssl_session_hash e = ssl_session_hash a \<and>
                                       ssl_session_cmp e a = 0)) (sessions c)\<rparr>"

definition SSL_CTX_flush_sessions_ex :: "SSL_CTX \<Rightarrow> int \<Rightarrow> SSL_CTX" where
  "SSL_CTX_flush_sessions_ex c t = c\<lparr>sessions := filter (\<lambda>e. sess_expiry e > t) (sessions c)\<rparr>"

text \<open>
  The calls a cache function makes on its collaborators, in order: the trace that makes
  "consulted the cache" and "swept the cache" observable.
\<close>

datatype cache_call =
    Call_read_lock
  | Call_retrieve
  | Call_unlock
  | Call_add_session
  | Call_new_session_cb
  | Call_flush_sessions int

text \<open>
  \<open>SSL_SESSION_up_ref\<close> and \<open>SSL_SESSION_free\<close> on the reference count, in the shape of
  \<open>SSL_up_ref\<close>: the increment reports success when the new count exceeds one.
\<close>

definition SSL_SESSION_up_ref :: "SSL_SESSION \<Rightarrow> int \<times> SSL_SESSION" where
  "SSL_SESSION_up_ref a =
    (let i = sess_references a + 1
     in ((if i > 1 then 1 else 0), a\<lparr>sess_references := i\<rparr>))"

definition SSL_SESSION_free :: "SSL_SESSION \<Rightarrow> SSL_SESSION" where
  "SSL_SESSION_free a = a\<lparr>sess_references := sess_references a - 1\<rparr>"

subsection \<open>Updating the cache after a handshake\<close>

text \<open>
  \<open>ssl_update_cache\<close>. \<open>sess\<close> is \<open>s->session\<close>, \<open>c\<close> is \<open>s->session_ctx\<close>, \<open>now\<close> is what
  \<open>time(NULL)\<close> returns. The result is the session, the factory and the trace of calls.
\<close>

definition ssl_update_cache ::
  "int \<Rightarrow> SSL_CONNECTION \<Rightarrow> SSL_SESSION \<Rightarrow> SSL_CTX \<Rightarrow> 32 word \<Rightarrow>
   SSL_SESSION \<times> SSL_CTX \<times> cache_call list" where
  "ssl_update_cache now s sess c md =
    (if session_id_length sess = 0 \<or> not_resumable sess then (sess, c, [])
     else if server s \<and> sess_sid_ctx_length sess = 0 \<and> verify_mode s AND SSL_VERIFY_PEER \<noteq> 0
     then (sess, c, [])
     else
       (let i = session_cache_mode c in
        case (if i AND md \<noteq> 0 \<and> (\<not> hit s \<or> SSL_CONNECTION_IS_TLS13 s) then
                (case (if i AND SSL_SESS_CACHE_NO_INTERNAL_STORE = 0 \<and>
                          (\<not> SSL_CONNECTION_IS_TLS13 s \<or> \<not> server s \<or>
                           (max_early_data s > 0 \<and> options s AND SSL_OP_NO_ANTI_REPLAY = 0) \<or>
                           remove_session_cb c \<noteq> None \<or>
                           options s AND SSL_OP_NO_TICKET \<noteq> 0)
                       then (SSL_CTX_add_session c sess, [Call_add_session])
                       else (c, [])) of
                   (c1, tr1) \<Rightarrow>
                     (case new_session_cb c1 of
                        None \<Rightarrow> (sess, c1, tr1)
                      | Some cb \<Rightarrow>
                          (case SSL_SESSION_up_ref sess of
                             (ok, sess1) \<Rightarrow>
                               if ok = 0 then (sess1, c1, tr1)
                               else if \<not> cb sess1
                               then (SSL_SESSION_free sess1, c1, tr1 @ [Call_new_session_cb])
                               else (sess1, c1, tr1 @ [Call_new_session_cb]))))
              else (sess, c, [])) of
          (sess2, c2, tr2) \<Rightarrow>
            if i AND SSL_SESS_CACHE_NO_AUTO_CLEAR = 0 \<and> i AND md = md then
              (let stat = (if md AND SSL_SESS_CACHE_CLIENT \<noteq> 0
                           then sess_connect_good c2 else sess_accept_good c2)
               in if stat AND 0xff = 0xff
                  then (sess2, SSL_CTX_flush_sessions_ex c2 now, tr2 @ [Call_flush_sessions now])
                  else (sess2, c2, tr2))
            else (sess2, c2, tr2)))"

subsection \<open>Looking a session id up\<close>

text \<open>
  \<open>SSL_has_matching_session_id\<close>. \<open>lock_ok\<close> is the outcome of taking the cache's read
  lock, \<open>uninit\<close> is whatever the probe session \<open>r\<close> holds before its three fields are
  set, \<open>c\<close> is \<open>sc->session_ctx\<close>. The probe is returned next to the result and the trace
  so that the copy into it can be inspected; it is \<open>None\<close> when no probe was built.
\<close>

definition SSL_has_matching_session_id ::
  "bool \<Rightarrow> SSL_SESSION \<Rightarrow> SSL_CONNECTION option \<Rightarrow> SSL_CTX \<Rightarrow> byte list \<Rightarrow> nat \<Rightarrow>
   int \<times> cache_call list \<times> SSL_SESSION option" where
  "SSL_has_matching_session_id lock_ok uninit ssl c ident id_len =
    (case ssl of
       None \<Rightarrow> (0, [], None)
     | Some sc \<Rightarrow>
         if id_len > SSL_MAX_SSL_SESSION_ID_LENGTH then (0, [], None)
         else
           (let r = uninit\<lparr>ssl_version := version sc, session_id_length := id_len,
                           session_id := memcpy (session_id uninit) ident id_len\<rparr>
            in if \<not> lock_ok then (0, [Call_read_lock], Some r)
               else
                 ((if lh_SSL_SESSION_retrieve (sessions c) r \<noteq> None then 1 else 0),
                  [Call_read_lock, Call_retrieve, Call_unlock], Some r)))"

section \<open>Early data\<close>

text \<open>
  Modelled from the spec: the result codes of read-early-data (Error, Success, Finish) and
  the early-data status "accepted" of the public header, which is not part of the source
  at hand.
\<close>

definition SSL_READ_EARLY_DATA_ERROR :: int where "SSL_READ_EARLY_DATA_ERROR = 0"
definition SSL_READ_EARLY_DATA_SUCCESS :: int where "SSL_READ_EARLY_DATA_SUCCESS = 1"
definition SSL_READ_EARLY_DATA_FINISH :: int where "SSL_READ_EARLY_DATA_FINISH = 2"
definition SSL_EARLY_DATA_ACCEPTED :: int where "SSL_EARLY_DATA_ACCEPTED = 2"

text \<open>
  The handshake and record layers as the functions of this file see them: whether the
  connection is in its handshake phase (\<open>SSL_in_init\<close>), whether it is before any
  handshake progress (\<open>SSL_in_before\<close>), one step of the server handshake, and one read,
  which returns its result, the byte count it stores and the connection it leaves.
\<close>

record statem_env =
  SSL_in_init :: "SSL_CONNECTION \<Rightarrow> bool"
  SSL_in_before :: "SSL_CONNECTION \<Rightarrow> bool"
  SSL_accept :: "SSL_CONNECTION \<Rightarrow> int \<times> SSL_CONNECTION"
  SSL_read_ex :: "SSL_CONNECTION \<Rightarrow> nat \<Rightarrow> int \<times> nat option \<times> SSL_CONNECTION"

text \<open>
  \<open>SSL_read_early_data\<close>, with the two labels the \<open>switch\<close> falls through to as functions.
  The result is the return value, the value stored in \<open>*readbytes\<close> (\<open>None\<close> when nothing
  is stored), the reason raised and the connection.
\<close>

definition early_read_retry ::
  "statem_env \<Rightarrow> SSL_CONNECTION \<Rightarrow> nat \<Rightarrow>
   int \<times> nat option \<times> ssl_reason option \<times> SSL_CONNECTION option" where
  "early_read_retry env sc num =
    (if ext_early_data sc = SSL_EARLY_DATA_ACCEPTED then
       (case SSL_read_ex env (sc\<lparr>early_data_state := SSL_EARLY_DATA_READING\<rparr>) num of
          (ret, rb, sc1) \<Rightarrow>
            if ret > 0 \<or> (ret \<le> 0 \<and> early_data_state sc1 \<noteq> SSL_EARLY_DATA_FINISHED_READING)
            then ((if ret > 0 then SSL_READ_EARLY_DATA_SUCCESS else SSL_READ_EARLY_DATA_ERROR),
                  rb, None, Some (sc1\<lparr>early_data_state := SSL_EARLY_DATA_READ_RETRY\<rparr>))
            else (SSL_READ_EARLY_DATA_FINISH, Some 0, None, Some sc1))
     else (SSL_READ_EARLY_DATA_FINISH, Some 0, None,
           Some (sc\<lparr>early_data_state := SSL_EARLY_DATA_FINISHED_READING\<rparr>)))"

definition early_accept_retry ::
  "statem_env \<Rightarrow> SSL_CONNECTION \<Rightarrow> nat \<Rightarrow>
   int \<times> nat option \<times> ssl_reason option \<times> SSL_CONNECTION option" where
  "early_accept_retry env sc num =
    (case SSL_accept env (sc\<lparr>early_data_state := SSL_EARLY_DATA_ACCEPTING\<rparr>) of
       (ret, sc1) \<Rightarrow>
         if ret \<le> 0
         then (SSL_READ_EARLY_DATA_ERROR, None, None,
               Some (sc1\<lparr>early_data_state := SSL_EARLY_DATA_ACCEPT_RETRY\<rparr>))
         else early_read_retry env sc1 num)"

definition SSL_read_early_data ::
  "statem_env \<Rightarrow> SSL_CONNECTION option \<Rightarrow> nat \<Rightarrow>
   int \<times> nat option \<times> ssl_reason option \<times> SSL_CONNECTION option" where
  "SSL_read_early_data env s num =
    (case s of
       None \<Rightarrow> (SSL_READ_EARLY_DATA_ERROR, None, Some ERR_R_SHOULD_NOT_HAVE_BEEN_CALLED, None)
     | Some sc \<Rightarrow>
         if \<not> server sc
         then (SSL_READ_EARLY_DATA_ERROR, None, Some ERR_R_SHOULD_NOT_HAVE_BEEN_CALLED, Some sc)
         else
           (case early_data_state sc of
              SSL_EARLY_DATA_NONE \<Rightarrow>
                if \<not> SSL_in_before env sc
                then (SSL_READ_EARLY_DATA_ERROR, None,
                      Some ERR_R_SHOULD_NOT_HAVE_BEEN_CALLED, Some sc)
                else early_accept_retry env sc num
            | SSL_EARLY_DATA_ACCEPT_RETRY \<Rightarrow> early_accept_retry env sc num
            | SSL_EARLY_DATA_READ_RETRY \<Rightarrow> early_read_retry env sc num
            | _ \<Rightarrow> (SSL_READ_EARLY_DATA_ERROR, None,
                    Some ERR_R_SHOULD_NOT_HAVE_BEEN_CALLED, Some sc)))"

section \<open>Duplicating a connection\<close>

subsection \<open>Copying the DANE state\<close>

text \<open>\<open>dane_final\<close>: releases the records and the verification results.\<close>

definition dane_final :: "SSL_DANE \<Rightarrow> SSL_DANE" where
  "dane_final d0 = d0\<lparr>trecs := None, certs := None, mcert := None, mtlsa := None,
                       mdpth := -1, pdpth := -1\<rparr>"

text \<open>
  Modelled from the spec: the macro \<open>DANETLS_ENABLED\<close> of the internal DANE header, which
  is not part of the source at hand. Duplication is a no-op if the source has no records.
\<close>

definition DANETLS_ENABLED :: "SSL_DANE \<Rightarrow> bool" where
  "DANETLS_ENABLED d0 \<longleftrightarrow> sk_num (trecs d0) > 0"

text \<open>
  \<open>ssl_dane_dup\<close>: the loop re-adds each record of the source, in source order.
  \<open>reserve_ok\<close> is the outcome of \<open>sk_danetls_record_new_reserve\<close>, \<open>to_ctx_dane\<close> the
  registry of the target's factory.
\<close>

fun ssl_dane_dup_loop :: "dane_env \<Rightarrow> SSL_DANE \<Rightarrow> danetls_record list \<Rightarrow> int \<times> SSL_DANE" where
  "ssl_dane_dup_loop env to_dane [] = (1, to_dane)"
| "ssl_dane_dup_loop env to_dane (t # rest) =
    (case dane_tlsa_add env to_dane (usage t) (selector t) (mtype t) (Some (data t)) (dlen t) of
       (rv, err, to_dane') \<Rightarrow>
         if rv \<le> 0 then (0, to_dane') else ssl_dane_dup_loop env to_dane' rest)"

definition ssl_dane_dup ::
  "dane_env \<Rightarrow> bool \<Rightarrow> dane_ctx_st \<Rightarrow> SSL_DANE \<Rightarrow> SSL_DANE \<Rightarrow> int \<times> SSL_DANE" where
  "ssl_dane_dup env reserve_ok to_ctx_dane to_dane from_dane =
    (if \<not> DANETLS_ENABLED from_dane then (1, to_dane)
     else
       (let to1 = (dane_final to_dane)
                    \<lparr>dane_flags := dane_flags from_dane, dctx := to_ctx_dane,
                     trecs := (if reserve_ok then Some [] else None)\<rparr>
        in if trecs to1 = None then (0, to1)
           else ssl_dane_dup_loop env to1
                  (case trecs from_dane of None \<Rightarrow> [] | Some recs \<Rightarrow> recs)))"

subsection \<open>Objects and reference counts\<close>

text \<open>
  \<open>SSL_dup\<close> is about sharing, so the objects live in a store, addressed by number. An
  \<open>SSL\<close> object carries its reference count, the factory it came from, its method (\<open>ssl_method\<close>), the
  session and certificate material it points to, and the connection state; \<open>conn\<close> is
  \<open>None\<close> for a handle that is not a plain TLS connection. The store also holds the
  reference counts of sessions and certificate material, the factories, and the next
  address the allocator hands out.
\<close>

type_synonym addr = nat

record ssl_st =
  references :: int
  ctx :: addr
  ssl_method :: nat
  session :: "addr option"
  cert :: "addr option"
  conn :: "SSL_CONNECTION option"

record ssl_ctx_st =
  ctx_references :: int
  ctx_method :: "nat option"
  ctx_dane :: dane_ctx_st

record ssl_store =
  ssl_objs :: "addr \<rightharpoonup> ssl_st"
  ctx_objs :: "addr \<rightharpoonup> ssl_ctx_st"
  session_refs :: "addr \<rightharpoonup> int"
  cert_refs :: "addr \<rightharpoonup> int"
  next_addr :: addr

definition ssl_upd :: "ssl_store \<Rightarrow> addr \<Rightarrow> (ssl_st \<Rightarrow> ssl_st) \<Rightarrow> ssl_store" where
  "ssl_upd st a f =
    (case ssl_objs st a of
       None \<Rightarrow> st
     | Some obj \<Rightarrow> st\<lparr>ssl_objs := (ssl_objs st)(a \<mapsto> f obj)\<rparr>)"

definition conn_upd :: "ssl_store \<Rightarrow> addr \<Rightarrow> (SSL_CONNECTION \<Rightarrow> SSL_CONNECTION) \<Rightarrow> ssl_store" where
  "conn_upd st a f = ssl_upd st a (\<lambda>obj. obj\<lparr>conn := map_option f (conn obj)\<rparr>)"

text \<open>Reference counts: an object whose count drops to zero is released.\<close>

definition ref_up :: "(addr \<rightharpoonup> int) \<Rightarrow> addr \<Rightarrow> (addr \<rightharpoonup> int)" where
  "ref_up m p = (case m p of None \<Rightarrow> m | Some k \<Rightarrow> m(p \<mapsto> k + 1))"

definition ref_down :: "(addr \<rightharpoonup> int) \<Rightarrow> addr \<Rightarrow> (addr \<rightharpoonup> int)" where
  "ref_down m p =
    (case m p of
       None \<Rightarrow> m
     | Some k \<Rightarrow> if k - 1 > 0 then m(p \<mapsto> k - 1) else m(p := None))"

definition ref_up_opt :: "(addr \<rightharpoonup> int) \<Rightarrow> addr option \<Rightarrow> (addr \<rightharpoonup> int)" where
  "ref_up_opt m p = (case p of None \<Rightarrow> m | Some q \<Rightarrow> ref_up m q)"

definition ref_down_opt :: "(addr \<rightharpoonup> int) \<Rightarrow> addr option \<Rightarrow> (addr \<rightharpoonup> int)" where
  "ref_down_opt m p = (case p of None \<Rightarrow> m | Some q \<Rightarrow> ref_down m q)"

definition ctx_ref :: "int \<Rightarrow> ssl_store \<Rightarrow> addr \<Rightarrow> ssl_store" where
  "ctx_ref delta st c =
    (case ctx_objs st c of
       None \<Rightarrow> st
     | Some co \<Rightarrow>
         st\<lparr>ctx_objs := (ctx_objs st)(c \<mapsto> co\<lparr>ctx_references := ctx_references co + delta\<rparr>)\<rparr>)"

text \<open>
  The outcome of every fallible step of \<open>SSL_dup\<close>, in the order of the code, and what
  the constructor builds from the factory's configuration (\<open>new_conn\<close>).
\<close>

record dup_env =
  ssl_new_ok :: bool
  new_conn :: SSL_CONNECTION
  set_session_ok :: bool
  method_init_ok :: bool
  cert_dup_ok :: bool
  dane_reserve_ok :: bool
  tlsa_env :: dane_env
  dup_ex_data_ok :: bool
  cipher_list_dup_ok :: bool
  cipher_list_by_id_dup_ok :: bool
  ca_names_dup_ok :: bool
  client_ca_names_dup_ok :: bool

text \<open>
  \<open>SSL_new\<close>, through the method's constructor \<open>ossl_ssl_connection_new_int\<close> and
  \<open>ossl_ssl_init\<close>, as far as \<open>SSL_dup\<close> observes it: a failure anywhere inside leaves no
  object behind; on success a fresh object exists whose reference count is one, which
  holds two references to the factory (as \<open>ctx\<close> and as \<open>session_ctx\<close>), a fresh copy of
  the certificate material and no session.
\<close>

definition SSL_new :: "dup_env \<Rightarrow> ssl_store \<Rightarrow> addr option \<Rightarrow> ssl_store \<times> addr option" where
  "SSL_new env st c =
    (case c of
       None \<Rightarrow> (st, None)
     | Some ca \<Rightarrow>
         (case ctx_objs st ca of
            None \<Rightarrow> (st, None)
          | Some co \<Rightarrow>
              (case ctx_method co of
                 None \<Rightarrow> (st, None)
               | Some meth \<Rightarrow>
                   if \<not> ssl_new_ok env then (st, None)
                   else
                     (let a = next_addr st; ce = Suc a;
                          obj = \<lparr>references = 1, ctx = ca, ssl_method = meth, session = None,
                                 cert = Some ce, conn = Some (new_conn env)\<rparr>;
                          st1 = ctx_ref 2 st ca
                      in (st1\<lparr>ssl_objs := (ssl_objs st1)(a \<mapsto> obj),
                              cert_refs := (cert_refs st1)(ce \<mapsto> 1),
                              next_addr := Suc ce\<rparr>, Some a)))))"

text \<open>
  \<open>SSL_free\<close>: drops one reference; at zero the object is destroyed, which releases its
  session, its certificate material and its two references to the factory.
\<close>

definition SSL_free :: "ssl_store \<Rightarrow> addr option \<Rightarrow> ssl_store" where
  "SSL_free st s =
    (case s of
       None \<Rightarrow> st
     | Some a \<Rightarrow>
         (case ssl_objs st a of
            None \<Rightarrow> st
          | Some obj \<Rightarrow>
              (let i = references obj - 1 in
               if i > 0 then st\<lparr>ssl_objs := (ssl_objs st)(a \<mapsto> obj\<lparr>references := i\<rparr>)\<rparr>
               else
                 (let st1 = ctx_ref (-2) st (ctx obj)
                  in st1\<lparr>ssl_objs := (ssl_objs st1)(a := None),
                         session_refs := ref_down_opt (session_refs st1) (session obj),
                         cert_refs := ref_down_opt (cert_refs st1) (cert obj)\<rparr>))))"

subsection \<open>Sharing the session\<close>

definition SSL_MAX_SID_CTX_LENGTH :: nat where
  "SSL_MAX_SID_CTX_LENGTH = 32"

text \<open>\<open>SSL_set_session_id_context\<close>.\<close>

definition SSL_set_session_id_context ::
  "ssl_store \<Rightarrow> addr \<Rightarrow> byte list \<Rightarrow> nat \<Rightarrow> int \<times> ssl_store" where
  "SSL_set_session_id_context st a ident len =
    (case ssl_objs st a of
       None \<Rightarrow> (0, st)
     | Some obj \<Rightarrow>
         (case conn obj of
            None \<Rightarrow> (0, st)
          | Some sc \<Rightarrow>
              if len > SSL_MAX_SID_CTX_LENGTH then (0, st)
              else (1, conn_upd st a
                         (\<lambda>k. k\<lparr>sid_ctx_length := len,
                                sid_ctx := memcpy (sid_ctx k) ident len\<rparr>))))"

text \<open>
  Modelled from the spec: \<open>SSL_set_session\<close> of the session module, which is not part of
  the source at hand. The target shares the given session through a reference increment
  and lets go of the session it held before.
\<close>

definition SSL_set_session ::
  "dup_env \<Rightarrow> ssl_store \<Rightarrow> addr \<Rightarrow> addr option \<Rightarrow> int \<times> ssl_store" where
  "SSL_set_session env st t se =
    (case ssl_objs st t of
       None \<Rightarrow> (0, st)
     | Some tobj \<Rightarrow>
         if \<not> set_session_ok env then (0, st)
         else
           (let refs1 = ref_up_opt (session_refs st) se;
                refs2 = ref_down_opt refs1 (session tobj)
            in (1, ssl_upd (st\<lparr>session_refs := refs2\<rparr>) t (\<lambda>obj. obj\<lparr>session := se\<rparr>))))"

text \<open>
  \<open>SSL_copy_session_id\<close>: shares the session, switches the method if it differs, shares
  the certificate material through a reference increment, copies the session-id context.
\<close>

definition SSL_copy_session_id ::
  "dup_env \<Rightarrow> ssl_store \<Rightarrow> addr \<Rightarrow> addr \<Rightarrow> int \<times> ssl_store" where
  "SSL_copy_session_id env st t f =
    (case (ssl_objs st t, ssl_objs st f) of
       (Some tobj, Some fobj) \<Rightarrow>
         (case (conn tobj, conn fobj) of
            (Some tsc, Some fsc) \<Rightarrow>
              (case SSL_set_session env st t (session fobj) of
                 (r1, st1) \<Rightarrow>
                   if r1 = 0 then (0, st1)
                   else
                     (case (if ssl_method tobj \<noteq> ssl_method fobj
                            then ((if method_init_ok env then 1 else 0),
                                  ssl_upd st1 t (\<lambda>obj. obj\<lparr>ssl_method := ssl_method fobj\<rparr>))
                            else (1, st1)) of
                        (r2 :: int, st2) \<Rightarrow>
                          if r2 = 0 then (0, st2)
                          else
                            (let refs1 = ref_up_opt (cert_refs st2) (cert fobj);
                                 refs2 = ref_down_opt refs1 (cert tobj);
                                 st3 = ssl_upd (st2\<lparr>cert_refs := refs2\<rparr>) t
                                         (\<lambda>obj. obj\<lparr>cert := cert fobj\<rparr>)
                             in SSL_set_session_id_context st3 t (sid_ctx fsc)
                                  (sid_ctx_length fsc))))
          | _ \<Rightarrow> (0, st))
     | _ \<Rightarrow> (0, st))"

subsection \<open>\<open>SSL_dup\<close>\<close>

text \<open>
  \<open>SSL_set_ssl_method\<close> on a plain TLS connection: nothing to do when the method is the
  one in use; otherwise the method is switched and \<open>method_init_ok\<close> is the outcome of
  re-initialising for it.
\<close>

definition SSL_set_ssl_method :: "dup_env \<Rightarrow> ssl_store \<Rightarrow> addr \<Rightarrow> nat \<Rightarrow> int \<times> ssl_store" where
  "SSL_set_ssl_method env st a meth =
    (case ssl_objs st a of
       None \<Rightarrow> (0, st)
     | Some obj \<Rightarrow>
         if conn obj = None then (0, st)
         else if ssl_method obj \<noteq> meth
         then ((if method_init_ok env then 1 else 0), ssl_upd st a (\<lambda>k. k\<lparr>ssl_method := meth\<rparr>))
         else (1, st))"

text \<open>
  The branch of \<open>SSL_dup\<close> taken when the source has no session: same method, an
  independent copy of the certificate material, the session-id context.
\<close>

definition dup_without_session :: "dup_env \<Rightarrow> ssl_store \<Rightarrow> addr \<Rightarrow> ssl_st \<Rightarrow> SSL_CONNECTION \<Rightarrow> int \<times> ssl_store" where
  "dup_without_session env st r obj sc =
    (case SSL_set_ssl_method env st r (ssl_method obj) of
       (r1, st1) \<Rightarrow>
         if r1 = 0 then (0, st1)
         else
           (case (if cert obj \<noteq> None then
                    (case ssl_objs st1 r of
                       None \<Rightarrow> (0, st1)
                     | Some robj \<Rightarrow>
                         (let refs = ref_down_opt (cert_refs st1) (cert robj) in
                          if \<not> cert_dup_ok env
                          then (0, ssl_upd (st1\<lparr>cert_refs := refs\<rparr>) r (\<lambda>k. k\<lparr>cert := None\<rparr>))
                          else
                            (let ce = next_addr st1 in
                             (1, ssl_upd (st1\<lparr>cert_refs := refs(ce \<mapsto> 1), next_addr := Suc ce\<rparr>)
                                   r (\<lambda>k. k\<lparr>cert := Some ce\<rparr>)))))
                  else (1, st1)) of
              (r2 :: int, st2) \<Rightarrow>
                if r2 = 0 then (0, st2)
                else SSL_set_session_id_context st2 r (sid_ctx sc) (sid_ctx_length sc)))"

text \<open>
  The settings copied between the DANE state and the application data, and those copied
  after it. \<open>SSL_set_accept_state\<close> and \<open>SSL_set_connect_state\<close> set the role and clear
  the shutdown state before the source's shutdown state is copied over. Callback
  pointers, which \<open>SSL_dup\<close> copies in the same way, are not part of the model.
\<close>

definition dup_settings :: "SSL_CONNECTION \<Rightarrow> SSL_CONNECTION \<Rightarrow> SSL_CONNECTION" where
  "dup_settings sc retsc =
     retsc\<lparr>version := version sc, options := options sc,
           min_proto_version := min_proto_version sc,
           max_proto_version := max_proto_version sc, mode := mode sc,
           max_cert_list := max_cert_list sc, read_ahead := read_ahead sc,
           verify_mode := verify_mode sc, verify_depth := verify_depth sc\<rparr>"

text \<open>
  Modelled from the spec: \<open>X509_VERIFY_PARAM_inherit\<close> of the verification engine, which
  is not part of the source at hand: it copies unset fields from the source without
  overwriting fields already set on the target.
\<close>

definition X509_VERIFY_PARAM_inherit :: "SSL_CONNECTION \<Rightarrow> SSL_CONNECTION \<Rightarrow> SSL_CONNECTION" where
  "X509_VERIFY_PARAM_inherit retsc sc =
     (if param_hosts retsc = [] then retsc\<lparr>param_hosts := param_hosts sc\<rparr> else retsc)"

definition dup_role :: "SSL_CONNECTION \<Rightarrow> SSL_CONNECTION \<Rightarrow> SSL_CONNECTION" where
  "dup_role sc retsc =
     (let k1 = retsc\<lparr>server := server sc\<rparr>;
          k2 = (if handshake_func sc
                then k1\<lparr>server := server sc, shutdown := 0, handshake_func := True\<rparr>
                else k1);
          k3 = k2\<lparr>shutdown := shutdown sc, hit := hit sc\<rparr>
      in X509_VERIFY_PARAM_inherit k3 sc)"

text \<open>
  The body of \<open>SSL_dup\<close> between the allocation of \<open>ret\<close> and \<open>return ret\<close>: \<open>1\<close> when it
  runs to the end, \<open>0\<close> when it jumps to \<open>err\<close>.
\<close>

definition dup_body :: "dup_env \<Rightarrow> ssl_store \<Rightarrow> addr \<Rightarrow> addr \<Rightarrow> ssl_st \<Rightarrow> SSL_CONNECTION \<Rightarrow> int \<times> ssl_store" where
  "dup_body env st r a obj sc =
    (case ssl_objs st r of
       None \<Rightarrow> (0, st)
     | Some robj0 \<Rightarrow>
       if conn robj0 = None then (0, st)
       else
        (case (if session obj \<noteq> None then SSL_copy_session_id env st r a
               else dup_without_session env st r obj sc) of
           (r1, st1) \<Rightarrow>
             if r1 = 0 then (0, st1)
             else
               (case ssl_objs st1 r of
                  None \<Rightarrow> (0, st1)
                | Some robj \<Rightarrow>
                    (case conn robj of
                       None \<Rightarrow> (0, st1)
                     | Some retsc \<Rightarrow>
                         (case ssl_dane_dup (tlsa_env env) (dane_reserve_ok env)
                                 (case ctx_objs st1 (ctx robj) of
                                    None \<Rightarrow> dctx (dane retsc)
                                  | Some co \<Rightarrow> ctx_dane co)
                                 (dane retsc) (dane sc) of
                            (r2, to_dane) \<Rightarrow>
                              if r2 = 0
                              then (0, conn_upd st1 r (\<lambda>k. k\<lparr>dane := to_dane\<rparr>))
                              else
                                (let st2 = conn_upd st1 r
                                             (\<lambda>k. dup_settings sc (k\<lparr>dane := to_dane\<rparr>)) in
                                 if \<not> dup_ex_data_ok env then (0, st2)
                                 else
                                   (let st3 = conn_upd st2 r (dup_role sc) in
                                    if \<not> cipher_list_dup_ok env then (0, st3)
                                    else if \<not> cipher_list_by_id_dup_ok env then (0, st3)
                                    else if \<not> ca_names_dup_ok env \<or>
                                            \<not> client_ca_names_dup_ok env then (0, st3)
                                    else (1, st3))))))))"

text \<open>
  \<open>SSL_dup\<close>. The handle is \<open>None\<close> when \<open>NULL\<close>; the result is the store and the handle
  returned (\<open>None\<close> for \<open>NULL\<close>).
\<close>

definition SSL_dup ::
  "statem_env \<Rightarrow> dup_env \<Rightarrow> ssl_store \<Rightarrow> addr option \<Rightarrow> ssl_store \<times> addr option" where
  "SSL_dup henv env st s =
    (case s of
       None \<Rightarrow> (st, None)
     | Some a \<Rightarrow>
         (case ssl_objs st a of
            None \<Rightarrow> (st, None)
          | Some obj \<Rightarrow>
              (case conn obj of
                 None \<Rightarrow> (st, None)
               | Some sc \<Rightarrow>
                   if \<not> SSL_in_init henv sc \<or> \<not> SSL_in_before henv sc
                   then (st\<lparr>ssl_objs := (ssl_objs st)(a \<mapsto> obj\<lparr>references := references obj + 1\<rparr>)\<rparr>,
                         Some a)
                   else
                     (case SSL_new env st (Some (ctx obj)) of
                        (st1, None) \<Rightarrow> (st1, None)
                      | (st1, Some r) \<Rightarrow>
                          (case dup_body env st1 r a obj sc of
                             (ok, st2) \<Rightarrow>
                               if ok = 0 then (SSL_free st2 (Some r), None)
                               else (st2, Some r))))))"

section \<open>Vocabulary of the stated properties\<close>

subsection \<open>Order of the stored records\<close>

text \<open>
  The three sort keys of a record under a registry: usage, selector and the registry's
  priority ordinal of the matching type. Triples are compared lexicographically.
\<close>

definition tlsa_key :: "dane_ctx_st \<Rightarrow> danetls_record \<Rightarrow> uint8_t \<times> uint8_t \<times> uint8_t" where
  "tlsa_key dc r = (usage r, selector r, mdord_at dc (mtype r))"

text \<open>Where \<open>dane_tlsa_add\<close> puts a record: the loop's index handed to the stack.\<close>

definition tlsa_place ::
  "dane_ctx_st \<Rightarrow> danetls_record \<Rightarrow> danetls_record list \<Rightarrow> danetls_record list" where
  "tlsa_place dc t recs =
     sk_insert recs t (tlsa_find_pos dc (usage t) (selector t) (mtype t) recs)"

text \<open>
  A submission is the argument list of one call. A sequence of successful insertions is a
  run of calls each of which returns a positive value; the run is \<open>None\<close> once a call
  fails.
\<close>

type_synonym tlsa_call = "dane_env \<times> uint8_t \<times> uint8_t \<times> uint8_t \<times> byte list option \<times> nat"
type_synonym tlsa_fields = "uint8_t \<times> uint8_t \<times> uint8_t \<times> byte list"

fun tlsa_add_seq :: "SSL_DANE \<Rightarrow> tlsa_call list \<Rightarrow> SSL_DANE option" where
  "tlsa_add_seq dn [] = Some dn"
| "tlsa_add_seq dn ((env, u, sel, m, d, n) # rest) =
    (case dane_tlsa_add env dn u sel m d n of
       (rv, err, dn') \<Rightarrow> if rv > 0 then tlsa_add_seq dn' rest else None)"

text \<open>
  The TLSA fields of a stored record and of a submission, the sort key of such a field
  tuple, and the stored record sequence as field tuples.
\<close>

definition record_fields :: "danetls_record \<Rightarrow> tlsa_fields" where
  "record_fields r = (usage r, selector r, mtype r, data r)"

fun call_fields :: "tlsa_call \<Rightarrow> tlsa_fields" where
  "call_fields (env, u, sel, m, d, n) =
     (u, sel, m, case d of None \<Rightarrow> [] | Some bytes \<Rightarrow> take n bytes)"

fun fields_key :: "dane_ctx_st \<Rightarrow> tlsa_fields \<Rightarrow> uint8_t \<times> uint8_t \<times> uint8_t" where
  "fields_key dc (u, sel, m, bytes) = (u, sel, mdord_at dc m)"

definition stored :: "SSL_DANE \<Rightarrow> tlsa_fields list" where
  "stored dn = (case trecs dn of None \<Rightarrow> [] | Some recs \<Rightarrow> map record_fields recs)"

text \<open>The record count and the record list of a connection handle.\<close>

definition record_count :: "SSL_CONNECTION option \<Rightarrow> int" where
  "record_count s = (case s of None \<Rightarrow> -1 | Some sc \<Rightarrow> sk_num (trecs (dane sc)))"

definition record_list :: "SSL_CONNECTION option \<Rightarrow> danetls_record list option" where
  "record_list s = (case s of None \<Rightarrow> None | Some sc \<Rightarrow> trecs (dane sc))"

subsection \<open>Example objects\<close>

text \<open>
  A digest provider with the two built-in digests, the registry \<open>dane_ctx_enable\<close>
  installs with it, a freshly enabled DANE state, decoders that reject everything, and a
  few submissions: \<open>call_A\<close> and \<open>call_B\<close> share all three sort keys and differ in their
  data, \<open>call_C\<close> has keys of its own.
\<close>

definition example_digests :: "int \<Rightarrow> EVP_MD option" where
  "example_digests nid =
     (if nid = NID_sha256 then Some (EVP_MD NID_sha256 32)
      else if nid = NID_sha512 then Some (EVP_MD NID_sha512 64)
      else None)"

definition example_dctx :: dane_ctx_st where
  "example_dctx =
     snd (dane_ctx_enable example_digests True \<lparr>mdevp = None, mdord = None, mdmax = 0\<rparr>)"

definition example_dane :: SSL_DANE where
  "example_dane = \<lparr>dctx = example_dctx, trecs = Some [], certs = None, mtlsa = None,
     mcert = None, umask = 0, mdpth = -1, pdpth = -1, dane_flags = 0\<rparr>"

definition example_env :: dane_env where
  "example_env = \<lparr>d2i_X509 = (\<lambda>_. None), d2i_PUBKEY = (\<lambda>_. None), zalloc_ok = True,
     malloc_ok = True, sk_X509_new_ok = True, sk_X509_push_ok = True, sk_insert_ok = True\<rparr>"

definition call_A :: tlsa_call where
  "call_A = (example_env, 3, 1, 1, Some (replicate 32 0xAA), 32)"

definition call_B :: tlsa_call where
  "call_B = (example_env, 3, 1, 1, Some (replicate 32 0xBB), 32)"

definition call_C :: tlsa_call where
  "call_C = (example_env, 2, 0, 2, Some (replicate 64 0xCC), 64)"

text \<open>
  A client connection with DANE freshly enabled, the same connection holding one record,
  and a certificate decoder that accepts its input but yields a certificate without a
  public key.
\<close>

definition example_conn :: SSL_CONNECTION where
  "example_conn = \<lparr>version = 0x0303, is_dtls = False, server = False, hit = False,
     handshake_func = True, shutdown = 0, options = 0, mode = 0, min_proto_version = 0,
     max_proto_version = 0, max_cert_list = 102400, read_ahead = 0, verify_mode = 0,
     verify_depth = -1, max_early_data = 0, early_data_state = SSL_EARLY_DATA_NONE,
     ext_early_data = 0, ext_hostname = None, param_hosts = [], sid_ctx = replicate 32 0,
     sid_ctx_length = 0, dane = example_dane\<rparr>"

definition example_record :: danetls_record where
  "example_record = \<lparr>usage = 3, selector = 1, mtype = 1, data = replicate 32 0xAA,
     dlen = 32, spki = None\<rparr>"

definition example_conn_one :: SSL_CONNECTION where
  "example_conn_one = example_conn\<lparr>dane := example_dane\<lparr>trecs := Some [example_record]\<rparr>\<rparr>"

definition example_env_nokey :: dane_env where
  "example_env_nokey =
     example_env\<lparr>d2i_X509 := (\<lambda>bs. Some (X509 bs None, int (length bs)))\<rparr>"

subsection \<open>Sessions and the cache\<close>

text \<open>
  The hash as the specification words it: the first four bytes of the id, padded with
  zeros when the id is shorter, read as a little-endian number.
\<close>

definition hash_of_id_prefix :: "byte list \<Rightarrow> 64 word" where
  "hash_of_id_prefix sid =
    (let p = take 4 (sid @ replicate 4 0)
     in word_of_nat (unat (p ! 0) + 2 ^ 8 * unat (p ! 1) + 2 ^ 16 * unat (p ! 2) +
                     2 ^ 24 * unat (p ! 3)))"

text \<open>
  Two sessions with the same version and the same two-byte id that differ in everything
  else, also in the unused tail of the id array; a session with an empty id; a factory
  with an empty cache in server mode; a handshake layer that is before any progress and
  always succeeds; a server connection.
\<close>

definition example_session :: SSL_SESSION where
  "example_session = \<lparr>ssl_version = 0x0303, session_id_length = 2,
     session_id = [0x11, 0x22] @ replicate 30 0xEE, sess_sid_ctx_length = 0,
     not_resumable = False, sess_references = 1, sess_expiry = 1000\<rparr>"

definition example_session_twin :: SSL_SESSION where
  "example_session_twin = \<lparr>ssl_version = 0x0303, session_id_length = 2,
     session_id = [0x11, 0x22] @ replicate 30 0x77, sess_sid_ctx_length = 5,
     not_resumable = True, sess_references = 3, sess_expiry = 7\<rparr>"

definition example_session_noid :: SSL_SESSION where
  "example_session_noid = example_session\<lparr>session_id_length := 0\<rparr>"

definition example_ctx :: SSL_CTX where
  "example_ctx = \<lparr>session_cache_mode = SSL_SESS_CACHE_SERVER, sessions = [],
     sess_connect_good = 0, sess_accept_good = 0, new_session_cb = None,
     remove_session_cb = None\<rparr>"

definition example_statem :: statem_env where
  "example_statem = \<lparr>SSL_in_init = (\<lambda>_. True), SSL_in_before = (\<lambda>_. True),
     SSL_accept = (\<lambda>sc. (1, sc)), SSL_read_ex = (\<lambda>sc n. (1, Some n, sc))\<rparr>"

definition example_server :: SSL_CONNECTION where
  "example_server = example_conn\<lparr>server := True\<rparr>"

text \<open>
  Whether \<open>ssl_update_cache\<close> sweeps the cache when a server handshake with a resumable
  session completes at time 5000 and the good-handshake counter stands at \<open>k\<close>.
\<close>

definition sweeps :: "32 word \<Rightarrow> bool" where
  "sweeps k \<longleftrightarrow>
     Call_flush_sessions 5000 \<in> set (snd (snd (ssl_update_cache 5000 example_server
        example_session (example_ctx\<lparr>sess_accept_good := k\<rparr>) SSL_SESS_CACHE_SERVER)))"

subsection \<open>Enabling DANE\<close>

text \<open>
  A connection on which DANE is not enabled, and an environment in which setting the
  reference identifier fails while the other steps succeed.
\<close>

definition example_conn_off :: SSL_CONNECTION where
  "example_conn_off = example_conn\<lparr>dane := example_dane\<lparr>trecs := None\<rparr>\<rparr>"

definition example_enable_env :: enable_env where
  "example_enable_env = \<lparr>strdup_ok = True, set1_host_ok = False, sk_new_null_ok = True\<rparr>"

subsection \<open>Duplication\<close>

text \<open>
  What \<open>SSL_dup\<close> must not touch. \<open>hdr\<close> is the part of an object that carries the
  sharing: reference count, factory, session. \<open>frame st st' r\<close> says that a step changed
  at most the object \<open>r\<close>, and of it neither reference count, factory nor session, and
  no session's count; \<open>frame_sess st st' r se\<close> says the same except that \<open>r\<close> now
  shares the session \<open>se\<close>, whose count went up by one.
\<close>

definition hdr :: "ssl_st \<Rightarrow> int \<times> addr \<times> addr option" where
  "hdr obj = (references obj, ctx obj, session obj)"

definition frame :: "ssl_store \<Rightarrow> ssl_store \<Rightarrow> addr \<Rightarrow> bool" where
  "frame st st' r \<longleftrightarrow>
     (\<forall>x. x \<noteq> r \<longrightarrow> ssl_objs st' x = ssl_objs st x) \<and>
     session_refs st' = session_refs st \<and>
     map_option hdr (ssl_objs st' r) = map_option hdr (ssl_objs st r)"

definition frame_sess :: "ssl_store \<Rightarrow> ssl_store \<Rightarrow> addr \<Rightarrow> addr option \<Rightarrow> bool" where
  "frame_sess st st' r se \<longleftrightarrow>
     (\<forall>x. x \<noteq> r \<longrightarrow> ssl_objs st' x = ssl_objs st x) \<and>
     session_refs st' = ref_up_opt (session_refs st) se \<and>
     map_option hdr (ssl_objs st' r) =
       map_option (\<lambda>obj. (references obj, ctx obj, se)) (ssl_objs st r)"

text \<open>The allocator's invariant: no object lives at the address it hands out next.\<close>

definition next_addr_free :: "ssl_store \<Rightarrow> bool" where
  "next_addr_free st \<longleftrightarrow> ssl_objs st (next_addr st) = None"

text \<open>
  A store with one connection (at address 10) that has a session (at 20, held once),
  certificate material (at 30) and a factory (at 1); a handshake layer that reports a
  handshake under way (\<open>SSL_in_init\<close> holds, \<open>SSL_in_before\<close> does not); and an
  environment in which every step of \<open>SSL_dup\<close> succeeds.
\<close>

definition example_obj :: ssl_st where
  "example_obj = \<lparr>references = 1, ctx = 1, ssl_method = 7, session = Some 20,
     cert = Some 30, conn = Some example_conn\<rparr>"

definition example_store :: ssl_store where
  "example_store = \<lparr>ssl_objs = [10 \<mapsto> example_obj],
     ctx_objs = [1 \<mapsto> \<lparr>ctx_references = 2, ctx_method = Some 7, ctx_dane = example_dctx\<rparr>],
     session_refs = [20 \<mapsto> 1], cert_refs = [30 \<mapsto> 1], next_addr = 100\<rparr>"

definition statem_mid_handshake :: statem_env where
  "statem_mid_handshake = example_statem\<lparr>SSL_in_before := (\<lambda>_. False)\<rparr>"

definition example_dup_env :: dup_env where
  "example_dup_env = \<lparr>ssl_new_ok = True,
     new_conn = example_conn\<lparr>dane := dane_final example_dane\<rparr>,
     set_session_ok = True, method_init_ok = True, cert_dup_ok = True,
     dane_reserve_ok = True, tlsa_env = example_env, dup_ex_data_ok = True,
     cipher_list_dup_ok = True, cipher_list_by_id_dup_ok = True, ca_names_dup_ok = True,
     client_ca_names_dup_ok = True\<rparr>"

section \<open>Properties of the DANE engine\<close>

subsection \<open>The insertion point\<close>

lemma tlsa_find_pos_le: "tlsa_find_pos dc u s m recs \<le> length recs"
  by (induction recs) auto

lemma tlsa_place_Nil: "tlsa_place dc t [] = [t]"
  by (simp add: tlsa_place_def sk_insert_def)

text \<open>
  The loop skips exactly the stored records whose key is strictly greater than the new
  record's key, so the new record lands in front of the first record that is not greater.
\<close>

lemma tlsa_place_Cons:
  "tlsa_place dc t (r # rest) =
     (if tlsa_key dc t < tlsa_key dc r then r # tlsa_place dc t rest else t # r # rest)"
  using tlsa_find_pos_le[of dc "usage t" "selector t" "mtype t" rest]
  by (auto simp: tlsa_place_def sk_insert_def tlsa_key_def less_prod_def less_eq_prod_def)

lemma set_tlsa_place: "set (tlsa_place dc t recs) = insert t (set recs)"
  by (induction recs) (auto simp: tlsa_place_Nil tlsa_place_Cons)

lemma mset_tlsa_place: "mset (tlsa_place dc t recs) = add_mset t (mset recs)"
  by (induction recs) (auto simp: tlsa_place_Nil tlsa_place_Cons)

lemma length_tlsa_place: "length (tlsa_place dc t recs) = length recs + 1"
  using tlsa_find_pos_le[of dc "usage t" "selector t" "mtype t" recs]
  by (auto simp: tlsa_place_def sk_insert_def)

lemma sorted_tlsa_place:
  "sorted_wrt (\<lambda>a b. tlsa_key dc b \<le> tlsa_key dc a) recs \<Longrightarrow>
   sorted_wrt (\<lambda>a b. tlsa_key dc b \<le> tlsa_key dc a) (tlsa_place dc t recs)"
  by (induction recs) (auto simp: tlsa_place_Nil tlsa_place_Cons set_tlsa_place)

lemma filter_tlsa_place:
  "filter (\<lambda>r. tlsa_key dc r = k) (tlsa_place dc t recs) =
     (if tlsa_key dc t = k then t # filter (\<lambda>r. tlsa_key dc r = k) recs
      else filter (\<lambda>r. tlsa_key dc r = k) recs)"
proof (induction recs)
  case Nil
  show ?case by (simp add: tlsa_place_Nil)
next
  case (Cons r rest)
  then show ?case by (auto simp: tlsa_place_Cons)
qed

lemma tlsa_key_fields: "tlsa_key dc r = fields_key dc (record_fields r)"
  by (simp add: tlsa_key_def record_fields_def)

subsection \<open>One call\<close>

lemma tlsa_cache_full_Inr:
  "tlsa_cache_full env dn t bytes ilen = Inr (t', dn') \<Longrightarrow>
   record_fields t' = record_fields t \<and> dctx dn' = dctx dn \<and> trecs dn' = trecs dn"
  by (auto simp: tlsa_cache_full_def record_fields_def Let_def
           split: if_splits option.splits prod.splits)

lemma tlsa_cache_full_Inl:
  "tlsa_cache_full env dn t bytes ilen = Inl (rv, e, dn') \<Longrightarrow>
   rv \<le> 0 \<and> dctx dn' = dctx dn \<and> trecs dn' = trecs dn"
  by (auto simp: tlsa_cache_full_def Let_def
           split: if_splits option.splits prod.splits)

lemma dane_tlsa_add_success:
  assumes "dane_tlsa_add env dn u sel m d n = (rv, e, dn')" and "rv > 0"
  shows "\<exists>recs bytes t.
           trecs dn = Some recs \<and> d = Some bytes \<and>
           record_fields t = (u, sel, m, take n bytes) \<and>
           trecs dn' = Some (tlsa_place (dctx dn) t recs) \<and>
           dctx dn' = dctx dn \<and> rv = 1"
proof -
  from assms obtain recs where recs: "trecs dn = Some recs"
    by (cases "trecs dn") (auto simp: dane_tlsa_add_def Let_def)
  from assms recs obtain bytes where bytes: "d = Some bytes"
    by (cases d) (auto simp: dane_tlsa_add_def Let_def split: if_splits)
  define t where "t = \<lparr>usage = u, selector = sel, mtype = m, data = take n bytes,
                          dlen = n, spki = None\<rparr>"
  define stage where "stage = (if m = DANETLS_MATCHING_FULL
                       then tlsa_cache_full env dn t bytes (int_of_size_t n)
                       else Inr (t, dn))"
  from assms recs bytes obtain t' dmid where st: "stage = Inr (t', dmid)"
    and res: "dn' = dmid\<lparr>trecs := Some (sk_insert recs t' (tlsa_find_pos (dctx dmid) u sel m recs)),
                          umask := umask dmid OR DANETLS_USAGE_BIT u\<rparr>"
    and rv: "rv = 1"
    unfolding dane_tlsa_add_def Let_def stage_def t_def
    by (auto split: if_splits sum.splits prod.splits dest: tlsa_cache_full_Inl)
  from st have f: "record_fields t' = record_fields t \<and> dctx dmid = dctx dn"
    by (auto simp: stage_def dest: tlsa_cache_full_Inr split: if_splits)
  then have "usage t' = u" "selector t' = sel" "mtype t' = m"
    by (auto simp: record_fields_def t_def)
  with res f have "trecs dn' = Some (tlsa_place (dctx dn) t' recs)"
    by (simp add: tlsa_place_def)
  with recs bytes f rv res show ?thesis
    by (auto simp: t_def record_fields_def)
qed

lemma dane_tlsa_add_failure:
  assumes "dane_tlsa_add env dn u sel m d n = (rv, e, dn')" and "rv \<le> 0"
  shows "trecs dn' = trecs dn"
  using assms unfolding dane_tlsa_add_def Let_def
  by (auto split: if_splits option.splits sum.splits prod.splits
           dest: tlsa_cache_full_Inl tlsa_cache_full_Inr)

text \<open>
  The success path is there for every well-formed digest record: with DANE enabled, fields
  in range, a registered digest whose size is the data length, and no allocation failing,
  the call returns 1.
\<close>

lemma int_of_size_t_small:
  assumes "n < 2 ^ 31"
  shows "int_of_size_t n = int n"
proof -
  from assms have "int n < 2 ^ 31" by (metis of_nat_less_iff of_nat_numeral of_nat_power)
  moreover have "- (2 ^ 31) \<le> int n" by (rule order_trans[of _ 0]) simp_all
  ultimately have "signed_take_bit 31 (int n) = int n"
    by (rule signed_take_bit_int_eq_self[rotated])
  then show ?thesis
    by (simp add: int_of_size_t_def signed_of_nat)
qed

lemma size_t_of_int_nat:
  assumes "n < 2 ^ 64"
  shows "size_t_of_int (int n) = n"
  using assms by (simp add: size_t_of_int_def unsigned_of_nat take_bit_nat_eq_self)

lemma dane_tlsa_add_digest_succeeds:
  assumes "trecs dn \<noteq> None" and "n < 2 ^ 31"
    and "u \<le> DANETLS_USAGE_LAST" and "sel \<le> DANETLS_SELECTOR_LAST"
    and "m \<noteq> DANETLS_MATCHING_FULL" and "tlsa_md_get dn m = Some h"
    and "EVP_MD_get_size h = int n" and "0 < n"
    and "zalloc_ok env" and "malloc_ok env" and "sk_insert_ok env"
  shows "fst (dane_tlsa_add env dn u sel m (Some bytes) n) = 1"
proof -
  from assms(2) have n64: "n < 2 ^ 64"
    by (rule less_trans) simp
  note c = int_of_size_t_small[OF assms(2)] size_t_of_int_nat[OF n64]
  from assms show ?thesis
    by (auto simp: dane_tlsa_add_def Let_def c not_less split: option.splits)
qed

subsection \<open>A run of calls\<close>

lemma tlsa_add_seq_stored:
  assumes "tlsa_add_seq dn calls = Some dfin" and "trecs dn = Some start"
  shows "\<exists>recs. trecs dfin = Some recs \<and> dctx dfin = dctx dn \<and>
           (sorted_wrt (\<lambda>a b. tlsa_key (dctx dn) b \<le> tlsa_key (dctx dn) a) start \<longrightarrow>
            sorted_wrt (\<lambda>a b. tlsa_key (dctx dn) b \<le> tlsa_key (dctx dn) a) recs) \<and>
           (\<forall>k. filter (\<lambda>f. fields_key (dctx dn) f = k) (map record_fields recs) =
                rev (filter (\<lambda>f. fields_key (dctx dn) f = k) (map call_fields calls)) @
                filter (\<lambda>f. fields_key (dctx dn) f = k) (map record_fields start)) \<and>
           mset (map record_fields recs) =
             mset (map call_fields calls) + mset (map record_fields start)"
  using assms
proof (induction calls arbitrary: dn start)
  case Nil
  then show ?case by simp
next
  case (Cons c calls)
  obtain env u sel m d n where c: "c = (env, u, sel, m, d, n)"
    by (cases c) auto
  obtain rv e dn' where add: "dane_tlsa_add env dn u sel m d n = (rv, e, dn')"
    by (cases "dane_tlsa_add env dn u sel m d n") auto
  with Cons.prems c have rv: "rv > 0" and rest: "tlsa_add_seq dn' calls = Some dfin"
    by (auto split: if_splits)
  from dane_tlsa_add_success[OF add rv] Cons.prems(2) obtain bytes t where
    d: "d = Some bytes" and t: "record_fields t = (u, sel, m, take n bytes)" and
    tr: "trecs dn' = Some (tlsa_place (dctx dn) t start)" and dc: "dctx dn' = dctx dn"
    by auto
  have cf: "call_fields c = record_fields t" using c d t by simp
  from Cons.IH[OF rest tr] dc obtain recs where
    r1: "trecs dfin = Some recs" "dctx dfin = dctx dn" and
    r2: "sorted_wrt (\<lambda>a b. tlsa_key (dctx dn) b \<le> tlsa_key (dctx dn) a)
           (tlsa_place (dctx dn) t start) \<longrightarrow>
         sorted_wrt (\<lambda>a b. tlsa_key (dctx dn) b \<le> tlsa_key (dctx dn) a) recs" and
    r3: "\<forall>k. filter (\<lambda>f. fields_key (dctx dn) f = k) (map record_fields recs) =
           rev (filter (\<lambda>f. fields_key (dctx dn) f = k) (map call_fields calls)) @
           filter (\<lambda>f. fields_key (dctx dn) f = k)
             (map record_fields (tlsa_place (dctx dn) t start))" and
    r4: "mset (map record_fields recs) =
           mset (map call_fields calls) + mset (map record_fields (tlsa_place (dctx dn) t start))"
    by auto
  have f: "filter (\<lambda>f. fields_key (dctx dn) f = k)
             (map record_fields (tlsa_place (dctx dn) t start)) =
           (if fields_key (dctx dn) (record_fields t) = k then [record_fields t] else []) @
           filter (\<lambda>f. fields_key (dctx dn) f = k) (map record_fields start)" for k
    using filter_tlsa_place[where dc="dctx dn" and k=k and t=t and recs=start]
    by (simp add: filter_map comp_def tlsa_key_fields)
  show ?case
    using r1 r2 r3 r4 f cf sorted_tlsa_place[where dc="dctx dn" and recs=start and t=t]
    by (simp add: mset_tlsa_place)
qed

text \<open>
  Two sequences in descending key order with the same elements are the same sequence when
  no key occurs twice.
\<close>

lemma desc_sorted_unique:
  fixes f :: "'a \<Rightarrow> 'k::linorder"
  assumes "sorted_wrt (\<lambda>a b. f b \<le> f a) xs" and "sorted_wrt (\<lambda>a b. f b \<le> f a) ys"
    and "mset xs = mset ys" and "distinct (map f xs)"
  shows "xs = ys"
proof -
  have sx: "sorted (rev (map f xs))" and sy: "sorted (rev (map f ys))"
    using assms(1,2) by (simp_all add: sorted_wrt_rev sorted_wrt_map flip: rev_map)
  have dy: "distinct (map f ys)"
    using assms(3,4) by (metis mset_eq_imp_distinct_iff mset_map)
  have "set (map f xs) = set (map f ys)"
    using assms(3) by (metis mset_eq_setD set_map)
  then have "rev (map f xs) = rev (map f ys)"
    using sx sy dy assms(4) by (intro sorted_distinct_set_unique) simp_all
  then have m: "map f xs = map f ys" by simp
  have "inj_on f (set xs \<union> set ys)"
    using assms(3,4) by (metis distinct_map mset_eq_setD sup.idem)
  with m show ?thesis by (simp add: inj_on_map_eq_map)
qed

subsection \<open>Evaluating the examples\<close>

lemma example_dctx_eq:
  "example_dctx = \<lparr>mdevp = Some [None, Some (EVP_MD 672 32), Some (EVP_MD 674 64)],
                    mdord = Some [0, 1, 2], mdmax = 2\<rparr>"
  by code_simp

lemmas dane_consts =
  DANETLS_USAGE_PKIX_TA_def DANETLS_USAGE_PKIX_EE_def DANETLS_USAGE_DANE_TA_def
  DANETLS_USAGE_DANE_EE_def DANETLS_USAGE_LAST_def DANETLS_SELECTOR_CERT_def
  DANETLS_SELECTOR_SPKI_def DANETLS_SELECTOR_LAST_def DANETLS_MATCHING_FULL_def
  DANETLS_MATCHING_2256_def DANETLS_MATCHING_2512_def DANETLS_MATCHING_LAST_def

lemmas dane_eval =
  dane_tlsa_add_def tlsa_md_get_def mdevp_at_def mdord_at_def int_of_size_t_def
  size_t_of_int_def sk_insert_def example_dane_def example_env_def example_dctx_eq
  dane_consts Let_def stored_def record_fields_def

lemmas conn_eval =
  SSL_dane_tlsa_add_def example_conn_def example_conn_one_def example_record_def
  record_count_def record_list_def sk_num_def example_env_nokey_def tlsa_cache_full_def

subsection \<open>Order of the stored records (C1)\<close>

text \<open>
  C1, as stated, fails on ties: submitting \<open>call_A\<close> and then \<open>call_B\<close>, which share all
  three sort keys, stores \<open>call_B\<close>'s record in front of \<open>call_A\<close>'s, and submitting them
  the other way round stores a different sequence.
\<close>

theorem tlsa_order_counterexample:
  "map_option stored (tlsa_add_seq example_dane [call_A, call_B]) =
     Some [call_fields call_B, call_fields call_A] \<and>
   map_option stored (tlsa_add_seq example_dane [call_B, call_A]) =
     Some [call_fields call_A, call_fields call_B] \<and>
   call_fields call_A \<noteq> call_fields call_B \<and>
   fields_key (dctx example_dane) (call_fields call_A) =
     fields_key (dctx example_dane) (call_fields call_B)"
  by (simp add: call_A_def call_B_def dane_eval)

text \<open>
  C1 (amended). For every sequence of successful insertions on a freshly enabled DANE
  state, the stored record sequence is sorted by descending usage, then descending
  selector, then descending registry priority ordinal of the matching type; records whose
  three sort keys are all equal appear in reverse submission order (the latest first);
  consequently inserting the same records in another order yields the same final
  sequence whenever no two of them share all three sort keys.
\<close>

theorem tlsa_add_seq_sorted_ties_reversed:
  assumes "trecs dinit = Some []" and "tlsa_add_seq dinit calls = Some dfin"
  shows "sorted_wrt (\<lambda>f g. fields_key (dctx dinit) g \<le> fields_key (dctx dinit) f) (stored dfin) \<and>
         filter (\<lambda>f. fields_key (dctx dinit) f = k) (stored dfin) =
           rev (filter (\<lambda>f. fields_key (dctx dinit) f = k) (map call_fields calls)) \<and>
         (tlsa_add_seq dinit calls' = Some dalt \<and>
          mset (map call_fields calls') = mset (map call_fields calls) \<and>
          distinct (map (fields_key (dctx dinit)) (map call_fields calls))
          \<longrightarrow> stored dalt = stored dfin)"
proof -
  let ?dc = "dctx dinit"
  let ?ge = "\<lambda>f g. fields_key ?dc g \<le> fields_key ?dc f"
  have run: "sorted_wrt ?ge (stored d) \<and>
             (\<forall>k. filter (\<lambda>f. fields_key ?dc f = k) (stored d) =
                rev (filter (\<lambda>f. fields_key ?dc f = k) (map call_fields cs))) \<and>
             mset (stored d) = mset (map call_fields cs)"
    if "tlsa_add_seq dinit cs = Some d" for cs d
  proof -
    from tlsa_add_seq_stored[OF that assms(1)] obtain recs where
      r: "trecs d = Some recs"
         "sorted_wrt (\<lambda>a b. tlsa_key ?dc b \<le> tlsa_key ?dc a) recs"
         "\<forall>k. filter (\<lambda>f. fields_key ?dc f = k) (map record_fields recs) =
                rev (filter (\<lambda>f. fields_key ?dc f = k) (map call_fields cs))"
         "mset (map record_fields recs) = mset (map call_fields cs)"
      by auto
    from r(2) have "sorted_wrt ?ge (map record_fields recs)"
      by (simp add: sorted_wrt_map tlsa_key_fields)
    with r show ?thesis by (simp add: stored_def)
  qed
  note r1 = run[OF assms(2)]
  have "stored dalt = stored dfin"
    if h: "tlsa_add_seq dinit calls' = Some dalt"
          "mset (map call_fields calls') = mset (map call_fields calls)"
          "distinct (map (fields_key ?dc) (map call_fields calls))"
  proof -
    note r2 = run[OF h(1)]
    have m: "mset (stored dfin) = mset (stored dalt)" using r1 r2 h(2) by simp
    have "distinct (map (fields_key ?dc) (stored dfin))"
      using h(3) r1 by (metis mset_eq_imp_distinct_iff mset_map)
    with r1 r2 m have "stored dfin = stored dalt"
      by (intro desc_sorted_unique[where f="fields_key ?dc"]) simp_all
    then show ?thesis by simp
  qed
  with r1 show ?thesis by blast
qed

text \<open>
  The amended C1 at work: \<open>call_A\<close> and \<open>call_C\<close> have different keys, both orders of
  submission succeed and store the same, sorted, sequence.
\<close>

theorem tlsa_add_seq_sorted_ties_reversed_witness:
  "trecs example_dane = Some [] \<and>
   tlsa_add_seq example_dane [call_A, call_C] \<noteq> None \<and>
   tlsa_add_seq example_dane [call_C, call_A] \<noteq> None \<and>
   mset (map call_fields [call_C, call_A]) = mset (map call_fields [call_A, call_C]) \<and>
   distinct (map (fields_key (dctx example_dane)) (map call_fields [call_A, call_C])) \<and>
   stored (the (tlsa_add_seq example_dane [call_C, call_A])) =
     stored (the (tlsa_add_seq example_dane [call_A, call_C])) \<and>
   sorted_wrt (\<lambda>f g. fields_key (dctx example_dane) g \<le> fields_key (dctx example_dane) f)
     (stored (the (tlsa_add_seq example_dane [call_A, call_C])))"
proof -
  have h1: "trecs example_dane = Some []"
    by (simp add: example_dane_def)
  have n2: "tlsa_add_seq example_dane [call_A, call_C] \<noteq> None"
    by (simp add: call_A_def call_C_def dane_eval)
  have n3: "tlsa_add_seq example_dane [call_C, call_A] \<noteq> None"
    by (simp add: call_A_def call_C_def dane_eval)
  have h2: "tlsa_add_seq example_dane [call_A, call_C] =
              Some (the (tlsa_add_seq example_dane [call_A, call_C]))"
    using n2 by simp
  have h3: "tlsa_add_seq example_dane [call_C, call_A] =
              Some (the (tlsa_add_seq example_dane [call_C, call_A]))"
    using n3 by simp
  have h4: "mset (map call_fields [call_C, call_A]) = mset (map call_fields [call_A, call_C])"
    by (simp add: add_mset_commute)
  have h5: "distinct (map (fields_key (dctx example_dane)) (map call_fields [call_A, call_C]))"
    by (simp add: call_A_def call_C_def dane_eval)
  from tlsa_add_seq_sorted_ties_reversed [OF h1 h2,
      where calls' = "[call_C, call_A]"
        and dalt = "the (tlsa_add_seq example_dane [call_C, call_A])"]
    h3 h4 h5
  have "sorted_wrt (\<lambda>f g. fields_key (dctx example_dane) g \<le> fields_key (dctx example_dane) f)
          (stored (the (tlsa_add_seq example_dane [call_A, call_C]))) \<and>
        stored (the (tlsa_add_seq example_dane [call_C, call_A])) =
          stored (the (tlsa_add_seq example_dane [call_A, call_C]))"
    by blast
  with h1 n2 n3 h4 h5 show ?thesis by blast
qed

subsection \<open>Return value of a successful insertion (C2)\<close>

text \<open>
  C2, as stated, fails: adding a second record to a connection that holds one succeeds
  and returns 1, while the connection then holds two records.
\<close>

theorem record_count_counterexample:
  "fst (SSL_dane_tlsa_add example_env (Some example_conn_one) 3 1 1
          (Some (replicate 32 0xBB)) 32) = 1 \<and>
   record_count (snd (snd (SSL_dane_tlsa_add example_env (Some example_conn_one) 3 1 1
          (Some (replicate 32 0xBB)) 32))) = 2"
  by (simp add: conn_eval dane_eval)

text \<open>
  C2 (amended). A successful addTlsaRecord returns 1, whatever the number of records, and
  the number of TLSA records stored on the connection after the insertion is the number
  before it plus one.
\<close>

theorem dane_tlsa_add_returns_one:
  assumes "SSL_dane_tlsa_add env (Some sc) u sel m d n = (rv, e, s')" and "rv > 0"
  shows "rv = 1 \<and> record_count s' = record_count (Some sc) + 1 \<and> record_count (Some sc) \<ge> 0"
proof -
  obtain rv0 e0 dn' where add: "dane_tlsa_add env (dane sc) u sel m d n = (rv0, e0, dn')"
    by (cases "dane_tlsa_add env (dane sc) u sel m d n") auto
  with assms have eq: "rv0 = rv" "s' = Some (sc\<lparr>dane := dn'\<rparr>)"
    by (auto simp: SSL_dane_tlsa_add_def)
  from dane_tlsa_add_success[OF add] assms(2) eq obtain recs t where
    "trecs (dane sc) = Some recs" "trecs dn' = Some (tlsa_place (dctx (dane sc)) t recs)"
    "rv = 1"
    by auto
  then show ?thesis using eq by (simp add: record_count_def sk_num_def length_tlsa_place)
qed

theorem dane_tlsa_add_returns_one_witness:
  "0 < fst (SSL_dane_tlsa_add example_env (Some example_conn_one) 3 1 1
          (Some (replicate 32 0xBB)) 32) \<and>
   fst (SSL_dane_tlsa_add example_env (Some example_conn_one) 3 1 1
          (Some (replicate 32 0xBB)) 32) = 1 \<and>
   record_count (snd (snd (SSL_dane_tlsa_add example_env (Some example_conn_one) 3 1 1
          (Some (replicate 32 0xBB)) 32))) = record_count (Some example_conn_one) + 1"
proof -
  let ?r = "SSL_dane_tlsa_add example_env (Some example_conn_one) 3 1 1
          (Some (replicate 32 0xBB)) 32"
  have h1: "?r = (fst ?r, fst (snd ?r), snd (snd ?r))" by simp
  have h2: "0 < fst ?r" by (simp add: conn_eval dane_eval)
  from dane_tlsa_add_returns_one [OF h1 h2] h2 show ?thesis by simp
qed

subsection \<open>A failed insertion leaves the record list alone (C5)\<close>

text \<open>
  C5. For every input on which addTlsaRecord fails (it returns zero or a negative value:
  not enabled, bad length, usage, selector, matching type or digest length, null data,
  malformed certificate or public key, allocation failure), the DANE record list is
  exactly the same after the call as before it.
\<close>

theorem dane_tlsa_add_failure_keeps_records:
  assumes "SSL_dane_tlsa_add env (Some sc) u sel m d n = (rv, e, s')" and "rv \<le> 0"
  shows "record_list s' = record_list (Some sc)"
proof -
  obtain rv0 e0 dn' where add: "dane_tlsa_add env (dane sc) u sel m d n = (rv0, e0, dn')"
    by (cases "dane_tlsa_add env (dane sc) u sel m d n") auto
  with assms have eq: "rv0 = rv" "s' = Some (sc\<lparr>dane := dn'\<rparr>)"
    by (auto simp: SSL_dane_tlsa_add_def)
  from dane_tlsa_add_failure[OF add] assms(2) eq show ?thesis
    by (simp add: record_list_def)
qed

text \<open>
  The example of the specification: matching type full, selector certificate, and a DER
  certificate whose public key cannot be extracted. The call fails and the one stored
  record stays.
\<close>

theorem dane_tlsa_add_failure_keeps_records_witness:
  "fst (SSL_dane_tlsa_add example_env_nokey (Some example_conn_one) 3 0 0
          (Some [0x30, 0x03, 0x02, 0x01, 0x00]) 5) \<le> 0 \<and>
   fst (snd (SSL_dane_tlsa_add example_env_nokey (Some example_conn_one) 3 0 0
          (Some [0x30, 0x03, 0x02, 0x01, 0x00]) 5)) = Some SSL_R_DANE_TLSA_BAD_CERTIFICATE \<and>
   record_list (snd (snd (SSL_dane_tlsa_add example_env_nokey (Some example_conn_one) 3 0 0
          (Some [0x30, 0x03, 0x02, 0x01, 0x00]) 5))) = Some [example_record]"
proof -
  let ?r = "SSL_dane_tlsa_add example_env_nokey (Some example_conn_one) 3 0 0
          (Some [0x30, 0x03, 0x02, 0x01, 0x00]) 5"
  have h1: "?r = (fst ?r, fst (snd ?r), snd (snd ?r))" by simp
  have h2: "fst ?r \<le> 0" by (simp add: conn_eval dane_eval)
  have h3: "fst (snd ?r) = Some SSL_R_DANE_TLSA_BAD_CERTIFICATE" by (simp add: conn_eval dane_eval)
  have h4: "record_list (Some example_conn_one) = Some [example_record]"
    by (simp add: record_list_def example_conn_one_def example_conn_def example_dane_def)
  from dane_tlsa_add_failure_keeps_records [OF h1 h2] h2 h3 h4 show ?thesis by simp
qed

subsection \<open>Failure of enabling DANE (C4)\<close>

lemmas enable_eval =
  SSL_dane_enable_def SSL_set_tlsext_host_name_def X509_VERIFY_PARAM_set1_host_def
  TLSEXT_MAXLEN_host_name_def example_enable_env_def example_dctx_eq example_conn_off_def
  example_conn_def example_dane_def record_list_def

text \<open>
  C4, as stated, fails: on a connection without SNI hint, when setting the hint succeeds
  and setting the reference identifier fails, the call fails and the hint it set stays.
\<close>

theorem dane_enable_counterexample:
  "fst (SSL_dane_enable example_enable_env example_dctx (Some example_conn_off)
          ''example.com'') = -1 \<and>
   ext_hostname example_conn_off = None \<and>
   map_option ext_hostname
     (snd (snd (SSL_dane_enable example_enable_env example_dctx (Some example_conn_off)
                  ''example.com''))) = Some (Some ''example.com'')"
  by (simp add: enable_eval)

text \<open>
  C4 (amended). Whenever enableConnection fails, DANE is not partially enabled: the
  connection's record list is as it was before the call. When the call fails in its
  precondition checks (registry not enabled, DANE already enabled) or in its first inner
  step (setting the default SNI hint), the whole connection is as if the call had never
  been made. The effect of an inner step that succeeded is not undone when a later step
  fails: once the checks and the SNI step are passed, a failing call leaves the SNI hint
  it set in place (a hint that was there before is kept), and when setting the reference
  identifier succeeded too (so that the allocation of the record list is what failed),
  the reference identifier set by the call stays as well.
\<close>

theorem dane_enable_failure:
  assumes "SSL_dane_enable env registry (Some sc) basedomain = (rv, e, s')" and "rv \<le> 0"
  shows "record_list s' = record_list (Some sc) \<and>
         (mdmax registry = 0 \<or> trecs (dane sc) \<noteq> None \<or>
          (ext_hostname sc = None \<and>
           (basedomain = [] \<or> length basedomain > TLSEXT_MAXLEN_host_name \<or> \<not> strdup_ok env))
          \<longrightarrow> s' = Some sc) \<and>
         (mdmax registry \<noteq> 0 \<and> trecs (dane sc) = None \<and>
          (ext_hostname sc = None \<longrightarrow>
             basedomain \<noteq> [] \<and> length basedomain \<le> TLSEXT_MAXLEN_host_name \<and> strdup_ok env)
          \<longrightarrow> (\<exists>sc'. s' = Some sc' \<and> rv = -1 \<and>
                 ext_hostname sc' =
                   (case ext_hostname sc of None \<Rightarrow> Some basedomain | Some h \<Rightarrow> Some h) \<and>
                 (basedomain = [] \<or> set1_host_ok env \<longrightarrow>
                    param_hosts sc' = (if basedomain = [] then [] else [basedomain]))))"
  using assms
  by (auto simp: SSL_dane_enable_def SSL_set_tlsext_host_name_def
        X509_VERIFY_PARAM_set1_host_def record_list_def Let_def
        split: if_splits option.splits prod.splits)

text \<open>
  Two failures of inner steps on a connection without DANE and without SNI hint. When the
  string duplication of the SNI step fails, the call returns -1 and the connection is as
  it was. When the SNI step succeeds and setting the reference identifier fails, the call
  returns -1, the record list is still unallocated and the hint set by the call stays.
\<close>

theorem dane_enable_failure_witness:
  "fst (SSL_dane_enable (example_enable_env\<lparr>strdup_ok := False\<rparr>) example_dctx
          (Some example_conn_off) ''example.com'') = -1 \<and>
   snd (snd (SSL_dane_enable (example_enable_env\<lparr>strdup_ok := False\<rparr>) example_dctx
          (Some example_conn_off) ''example.com'')) = Some example_conn_off \<and>
   fst (SSL_dane_enable example_enable_env example_dctx (Some example_conn_off)
          ''example.com'') = -1 \<and>
   record_list (snd (snd (SSL_dane_enable example_enable_env example_dctx
          (Some example_conn_off) ''example.com''))) = None \<and>
   map_option ext_hostname (snd (snd (SSL_dane_enable example_enable_env example_dctx
          (Some example_conn_off) ''example.com''))) = Some (Some ''example.com'')"
proof -
  let ?nodup = "example_enable_env\<lparr>strdup_ok := False\<rparr>"
  let ?r = "SSL_dane_enable ?nodup example_dctx (Some example_conn_off) ''example.com''"
  let ?q = "SSL_dane_enable example_enable_env example_dctx (Some example_conn_off)
              ''example.com''"
  have r1: "?r = (fst ?r, fst (snd ?r), snd (snd ?r))" by simp
  have r2: "fst ?r = -1" by (simp add: enable_eval)
  have r3: "ext_hostname example_conn_off = None \<and> \<not> strdup_ok ?nodup"
    by (simp add: enable_eval)
  have q1: "?q = (fst ?q, fst (snd ?q), snd (snd ?q))" by simp
  have q2: "fst ?q = -1" by (simp add: enable_eval)
  have q3: "mdmax example_dctx \<noteq> 0 \<and> trecs (dane example_conn_off) = None \<and>
            ext_hostname example_conn_off = None \<and> ''example.com'' \<noteq> [] \<and>
            length ''example.com'' \<le> TLSEXT_MAXLEN_host_name \<and>
            strdup_ok example_enable_env"
    by (simp add: enable_eval)
  have q4: "record_list (Some example_conn_off) = None" by (simp add: enable_eval)
  from dane_enable_failure [OF r1] r2 r3
  have c1: "snd (snd ?r) = Some example_conn_off" by simp
  from dane_enable_failure [OF q1] q2 q3 q4
  have c2: "record_list (snd (snd ?q)) = None \<and>
            map_option ext_hostname (snd (snd ?q)) = Some (Some ''example.com'')"
    by auto
  from r2 c1 q2 c2 show ?thesis by simp
qed

section \<open>Properties of the session cache\<close>

subsection \<open>Equal sessions hash equal (C8)\<close>

lemma memcmp_zero_iff:
  "n \<le> length xs \<Longrightarrow> n \<le> length ys \<Longrightarrow> memcmp xs ys n = 0 \<longleftrightarrow> take n xs = take n ys"
proof (induction xs ys n rule: memcmp.induct)
  case (1 x xs y ys n)
  then show ?case by (auto simp flip: word_uint_eq_iff)
qed auto

text \<open>The four shifted bytes do not overlap, so joining them bitwise adds them up.\<close>

lemma pack4:
  fixes a b c d :: "8 word"
  shows "(ucast a :: 64 word) OR push_bit 8 (ucast b) OR push_bit 16 (ucast c) OR
           push_bit 24 (ucast d) =
         word_of_nat (unat a + 2 ^ 8 * unat b + 2 ^ 16 * unat c + 2 ^ 24 * unat d)"
proof -
  let ?p8 = "push_bit 8 (ucast b :: 64 word)"
  let ?p16 = "push_bit 16 (ucast c :: 64 word)"
  let ?p24 = "push_bit 24 (ucast d :: 64 word)"
  have e1: "?p16 OR ?p24 = ?p16 + ?p24"
    by (rule disjunctive_add_eq_or[symmetric], rule bit_eqI)
       (auto simp: bit_simps dest: bit_imp_le_length)
  have e2: "?p8 OR (?p16 OR ?p24) = ?p8 + (?p16 OR ?p24)"
    by (rule disjunctive_add_eq_or[symmetric], rule bit_eqI)
       (auto simp: bit_simps dest: bit_imp_le_length)
  have e3: "ucast a OR (?p8 OR (?p16 OR ?p24)) = ucast a + (?p8 OR (?p16 OR ?p24))"
    by (rule disjunctive_add_eq_or[symmetric], rule bit_eqI)
       (auto simp: bit_simps dest: bit_imp_le_length)
  have "ucast a OR (?p8 OR (?p16 OR ?p24)) = ucast a + (?p8 + (?p16 + ?p24))"
    by (subst e3, subst e2, subst e1) (rule refl)
  then show ?thesis
    by (simp add: push_bit_eq_mult)
qed

lemma hash_prefix_general:
  fixes sid p :: "byte list"
  assumes "\<forall>i<4. sid ! i = p ! i"
  shows "(ucast (sid ! 0) :: 64 word) OR push_bit 8 (ucast (sid ! 1)) OR
           push_bit 16 (ucast (sid ! 2)) OR push_bit 24 (ucast (sid ! 3)) =
         word_of_nat (unat (p ! 0) + 2 ^ 8 * unat (p ! 1) + 2 ^ 16 * unat (p ! 2) +
                      2 ^ 24 * unat (p ! 3))"
proof -
  from assms have "sid ! 0 = p ! 0" "sid ! 1 = p ! 1" "sid ! 2 = p ! 2" "sid ! 3 = p ! 3"
    by simp_all
  with pack4[of "p ! 0" "p ! 1" "p ! 2" "p ! 3"] show ?thesis by simp
qed

lemma ssl_session_hash_prefix:
  assumes "session_wf a"
  shows "ssl_session_hash a = hash_of_id_prefix (take (session_id_length a) (session_id a))"
proof -
  let ?n = "session_id_length a"
  let ?id = "session_id a"
  let ?p = "take 4 (take ?n ?id @ replicate 4 0)"
  from assms have len: "length ?id = 32" "?n \<le> 32"
    by (simp_all add: session_wf_def SSL_MAX_SSL_SESSION_ID_LENGTH_def)
  show ?thesis
  proof (cases "?n < 4")
    case True
    with len have "memcpy (replicate 4 0) ?id ?n = ?p"
      by (simp add: memcpy_def min_def)
    with True show ?thesis
      by (simp only: ssl_session_hash_def hash_of_id_prefix_def Let_def if_True pack4)
  next
    case False
    with len have "\<forall>i<4. ?id ! i = ?p ! i"
      by (auto simp: nth_append)
    from hash_prefix_general[OF this] False show ?thesis
      by (simp only: ssl_session_hash_def hash_of_id_prefix_def Let_def if_False)
  qed
qed

lemma ssl_session_cmp_zero_iff:
  assumes "session_wf a" and "session_wf b"
  shows "ssl_session_cmp a b = 0 \<longleftrightarrow>
           ssl_version a = ssl_version b \<and> session_id_length a = session_id_length b \<and>
           take (session_id_length a) (session_id a) = take (session_id_length b) (session_id b)"
  using assms
  by (auto simp: ssl_session_cmp_def session_wf_def memcmp_zero_iff)

text \<open>
  C8. For every pair of sessions a and b (laid out as the library lays sessions out), the
  session-equality predicate holds exactly when they have the same protocol version, the
  same session-id length and identical session-id bytes; if it holds, the session hash
  function gives the same value for a and b; and the hash is computed from at most the
  first 4 bytes of the session id, zero-padded when the id is shorter than 4 bytes.
\<close>

theorem equal_sessions_hash_equal:
  assumes "session_wf a" and "session_wf b"
  shows "(ssl_session_cmp a b = 0 \<longleftrightarrow>
           ssl_version a = ssl_version b \<and> session_id_length a = session_id_length b \<and>
           take (session_id_length a) (session_id a) =
             take (session_id_length b) (session_id b)) \<and>
         (ssl_session_cmp a b = 0 \<longrightarrow> ssl_session_hash a = ssl_session_hash b) \<and>
         ssl_session_hash a = hash_of_id_prefix (take (session_id_length a) (session_id a))"
proof -
  note iff = ssl_session_cmp_zero_iff[OF assms]
  have "ssl_session_hash a = ssl_session_hash b" if "ssl_session_cmp a b = 0"
  proof -
    from that iff have "take (session_id_length a) (session_id a) =
                        take (session_id_length b) (session_id b)"
      by blast
    then show ?thesis
      by (simp only: ssl_session_hash_prefix[OF assms(1)] ssl_session_hash_prefix[OF assms(2)])
  qed
  with iff ssl_session_hash_prefix[OF assms(1)] show ?thesis by blast
qed

theorem equal_sessions_hash_equal_witness:
  "session_wf example_session \<and> session_wf example_session_twin \<and>
   ssl_session_cmp example_session example_session_twin = 0 \<and>
   ssl_session_hash example_session = ssl_session_hash example_session_twin \<and>
   ssl_session_hash example_session = hash_of_id_prefix [0x11, 0x22]"
proof -
  have h1: "session_wf example_session"
    by (simp add: session_wf_def example_session_def SSL_MAX_SSL_SESSION_ID_LENGTH_def)
  have h2: "session_wf example_session_twin"
    by (simp add: session_wf_def example_session_twin_def SSL_MAX_SSL_SESSION_ID_LENGTH_def)
  have h3: "ssl_version example_session = ssl_version example_session_twin \<and>
            session_id_length example_session = session_id_length example_session_twin \<and>
            take (session_id_length example_session) (session_id example_session) =
            take (session_id_length example_session_twin) (session_id example_session_twin)"
    by (simp add: example_session_def example_session_twin_def)
  have h4: "take (session_id_length example_session) (session_id example_session) =
            [0x11, 0x22]"
    by (simp add: example_session_def)
  from equal_sessions_hash_equal [OF h1 h2] h3
  have "ssl_session_cmp example_session example_session_twin = 0"
    and "ssl_session_hash example_session = ssl_session_hash example_session_twin"
    and "ssl_session_hash example_session =
         hash_of_id_prefix (take (session_id_length example_session)
                              (session_id example_session))"
    by blast+
  with h1 h2 h4 show ?thesis by simp
qed

subsection \<open>Ids longer than the id field (C10)\<close>

text \<open>
  C10. For every id whose length exceeds the maximum session-id size (the size of the
  session-id field, 32 bytes), lookupById returns false without taking the cache's lock
  or consulting the cache, and without building the probe session, so the copy of the id
  into the probe is never made with a length that overruns it.
\<close>

theorem has_matching_session_id_long_id:
  assumes "id_len > SSL_MAX_SSL_SESSION_ID_LENGTH"
  shows "SSL_has_matching_session_id lock_ok uninit ssl c ident id_len = (0, [], None)"
  using assms by (simp add: SSL_has_matching_session_id_def split: option.splits)

text \<open>An id of 33 bytes is not found although the cache holds a session.\<close>

theorem has_matching_session_id_long_id_witness:
  "SSL_MAX_SSL_SESSION_ID_LENGTH < 33 \<and>
   SSL_has_matching_session_id True example_session (Some example_conn)
     (example_ctx\<lparr>sessions := [example_session]\<rparr>) (replicate 33 0x11) 33 = (0, [], None)"
proof -
  have h: "SSL_MAX_SSL_SESSION_ID_LENGTH < 33" by (simp add: SSL_MAX_SSL_SESSION_ID_LENGTH_def)
  from has_matching_session_id_long_id [OF h] h show ?thesis by simp
qed

text \<open>
  Whenever a probe is built, the copy stayed inside the id field: the field keeps its
  size and starts with the id.
\<close>

lemma probe_copy_in_bounds:
  assumes "SSL_has_matching_session_id lock_ok uninit ssl c ident id_len = (rv, tr, Some r)"
    and "length (session_id uninit) = SSL_MAX_SSL_SESSION_ID_LENGTH"
    and "id_len \<le> length ident"
  shows "id_len \<le> SSL_MAX_SSL_SESSION_ID_LENGTH \<and>
         length (session_id r) = SSL_MAX_SSL_SESSION_ID_LENGTH \<and>
         take id_len (session_id r) = take id_len ident"
  using assms
  by (auto simp: SSL_has_matching_session_id_def memcpy_def Let_def
           split: option.splits if_splits)

subsection \<open>Sessions that are never cached (C6)\<close>

lemma ssl_update_cache_skip:
  "session_id_length sess = 0 \<or> not_resumable sess \<Longrightarrow>
   ssl_update_cache now s sess c md = (sess, c, [])"
  by (auto simp: ssl_update_cache_def)

lemma example_lookup_finds_cached:
  "fst (SSL_has_matching_session_id True example_session (Some example_server)
          (example_ctx\<lparr>sessions := [example_session]\<rparr>) [0x11, 0x22] 2) = 1"
proof -
  let ?r = "example_session\<lparr>ssl_version := version example_server, session_id_length := 2,
              session_id := memcpy (session_id example_session) [0x11, 0x22] 2\<rparr>"
  have wf: "session_wf example_session" "session_wf ?r"
    by (simp_all add: session_wf_def example_session_def SSL_MAX_SSL_SESSION_ID_LENGTH_def
          memcpy_def)
  have same: "ssl_version example_session = ssl_version ?r \<and>
              session_id_length example_session = session_id_length ?r \<and>
              take (session_id_length example_session) (session_id example_session) =
              take (session_id_length ?r) (session_id ?r)"
    by (simp add: example_session_def example_server_def example_conn_def memcpy_def)
  then have "ssl_session_cmp example_session ?r = 0"
    using ssl_session_cmp_zero_iff[OF wf] by blast
  moreover have "ssl_session_hash example_session = ssl_session_hash ?r"
  proof -
    from same have t: "take (session_id_length example_session) (session_id example_session) =
                       take (session_id_length ?r) (session_id ?r)"
      by blast
    show ?thesis
      unfolding ssl_session_hash_prefix[OF wf(1)] ssl_session_hash_prefix[OF wf(2)]
      by (rule arg_cong[OF t])
  qed
  ultimately show ?thesis
    by (simp add: SSL_has_matching_session_id_def lh_SSL_SESSION_retrieve_def Let_def
          SSL_MAX_SSL_SESSION_ID_LENGTH_def)
qed

text \<open>
  C6, as stated, fails in its second half: on a cache that already holds a session under
  the id \<open>[0x11, 0x22]\<close>, after updateCache has run for a session with an empty id, and
  likewise for a not-resumable session, the lookup of that id returns true.
\<close>

theorem update_cache_lookup_counterexample:
  "session_id_length example_session_noid = 0 \<and>
   fst (SSL_has_matching_session_id True example_session (Some example_server)
          (fst (snd (ssl_update_cache 5000 example_server example_session_noid
                       (example_ctx\<lparr>sessions := [example_session]\<rparr>) SSL_SESS_CACHE_SERVER)))
          [0x11, 0x22] 2) = 1 \<and>
   not_resumable (example_session\<lparr>not_resumable := True\<rparr>) \<and>
   fst (SSL_has_matching_session_id True example_session (Some example_server)
          (fst (snd (ssl_update_cache 5000 example_server
                       (example_session\<lparr>not_resumable := True\<rparr>)
                       (example_ctx\<lparr>sessions := [example_session]\<rparr>) SSL_SESS_CACHE_SERVER)))
          [0x11, 0x22] 2) = 1"
proof -
  have a: "session_id_length example_session_noid = 0"
    by (simp add: example_session_noid_def)
  have b: "not_resumable (example_session\<lparr>not_resumable := True\<rparr>)"
    by simp
  from a b show ?thesis
    by (simp add: ssl_update_cache_skip example_lookup_finds_cached)
qed

text \<open>
  C6 (amended). For every session whose session-id length is zero or whose not_resumable
  flag is set, updateCache never inserts it into the session cache: it returns at once,
  leaving session, factory and cache as they were and calling no collaborator.
  Consequently every lookupById after it answers exactly as it would have before it: it
  returns false for every id when the cache was empty, while an id under which another
  session was cached earlier is still found.
\<close>

theorem update_cache_skips_unresumable:
  assumes "session_id_length sess = 0 \<or> not_resumable sess"
  shows "ssl_update_cache now s sess c md = (sess, c, []) \<and>
         SSL_has_matching_session_id lock_ok uninit ssl
           (fst (snd (ssl_update_cache now s sess c md))) ident id_len =
         SSL_has_matching_session_id lock_ok uninit ssl c ident id_len \<and>
         (sessions c = [] \<longrightarrow>
          fst (SSL_has_matching_session_id lock_ok uninit ssl
                 (fst (snd (ssl_update_cache now s sess c md))) ident id_len) = 0)"
proof -
  note eq = ssl_update_cache_skip[OF assms, of now s c md]
  have "fst (SSL_has_matching_session_id lock_ok uninit ssl c ident id_len) = 0"
    if "sessions c = []"
    using that
    by (simp add: SSL_has_matching_session_id_def lh_SSL_SESSION_retrieve_def Let_def
             split: option.splits)
  with eq show ?thesis by simp
qed

theorem update_cache_skips_unresumable_witness:
  "(session_id_length example_session_noid = 0 \<or> not_resumable example_session_noid) \<and>
   sessions example_ctx = [] \<and>
   ssl_update_cache 5000 example_server example_session_noid example_ctx SSL_SESS_CACHE_SERVER =
     (example_session_noid, example_ctx, []) \<and>
   fst (SSL_has_matching_session_id True example_session (Some example_server)
          (fst (snd (ssl_update_cache 5000 example_server example_session_noid example_ctx
                       SSL_SESS_CACHE_SERVER))) [] 0) = 0"
proof -
  have h1: "session_id_length example_session_noid = 0 \<or> not_resumable example_session_noid"
    by (simp add: example_session_noid_def)
  have h2: "sessions example_ctx = []" by (simp add: example_ctx_def)
  from update_cache_skips_unresumable [OF h1, of 5000 example_server example_ctx
      SSL_SESS_CACHE_SERVER True example_session "Some example_server" "[]" 0] h1 h2
  show ?thesis by blast
qed

subsection \<open>Period of the automatic sweep (C7)\<close>

lemma low_byte_all_ones: "(w :: 32 word) AND 0xff = 0xff \<longleftrightarrow> unat w mod 256 = 255"
proof -
  have "w AND 0xff = 0xff \<longleftrightarrow> take_bit 8 w = 0xff"
    by (simp add: take_bit_eq_mask mask_eq_exp_minus_1)
  also have "\<dots> \<longleftrightarrow> unat (take_bit 8 w) = 255"
    by (simp add: word_unat_eq_iff)
  also have "\<dots> \<longleftrightarrow> unat w mod 256 = 255"
    by (simp add: unsigned_take_bit_eq take_bit_eq_mod unat_mod)
  finally show ?thesis .
qed

text \<open>
  When the call is not skipped, the full cache-mode bitmask is satisfied and auto-sweep is
  not disabled, \<open>ssl_update_cache\<close> sweeps exactly when the low eight bits of the
  good-handshake counter are all ones.
\<close>

lemma ssl_update_cache_sweep_iff:
  assumes "session_id_length sess \<noteq> 0" and "\<not> not_resumable sess"
    and "\<not> (server s \<and> sess_sid_ctx_length sess = 0 \<and> verify_mode s AND SSL_VERIFY_PEER \<noteq> 0)"
    and "session_cache_mode c AND SSL_SESS_CACHE_NO_AUTO_CLEAR = 0"
    and "session_cache_mode c AND md = md"
  shows "Call_flush_sessions now \<in> set (snd (snd (ssl_update_cache now s sess c md))) \<longleftrightarrow>
         (if md AND SSL_SESS_CACHE_CLIENT \<noteq> 0 then sess_connect_good c else sess_accept_good c)
           AND 0xff = 0xff"
  using assms
  by (auto simp: ssl_update_cache_def Let_def SSL_CTX_add_session_def
           split: option.splits prod.splits if_splits)

lemma sweeps_iff: "sweeps k \<longleftrightarrow> unat k mod 256 = 255"
  unfolding sweeps_def low_byte_all_ones[symmetric]
  by (simp add: ssl_update_cache_def example_server_def example_conn_def example_session_def
        example_ctx_def SSL_SESS_CACHE_SERVER_def SSL_SESS_CACHE_CLIENT_def
        SSL_SESS_CACHE_NO_AUTO_CLEAR_def SSL_SESS_CACHE_NO_INTERNAL_STORE_def SSL_VERIFY_PEER_def
        SSL_CONNECTION_IS_TLS13_def TLS1_3_VERSION_def Let_def SSL_CTX_add_session_def
        SSL_CTX_flush_sessions_ex_def)

text \<open>
  C7 (the code at the failing input). The claim, like the comment in the code, has a
  sweep every 255 successful handshakes. The code sweeps when the counter stands at 255
  and next when it stands at 511, that is once every 256 handshakes: none of the 255
  handshakes that find the counter at 256, ..., 510 sweeps, 509 and 510 among them.
\<close>

theorem update_cache_sweep_period:
  "sweeps 255 \<and> \<not> sweeps 256 \<and> \<not> sweeps 509 \<and> \<not> sweeps 510 \<and> sweeps 511 \<and>
   \<not> sweeps 254 \<and> \<not> sweeps 0"
  by (simp add: sweeps_iff)

lemma no_sweep_between:
  assumes "256 \<le> unat k" and "unat k \<le> 510"
  shows "\<not> sweeps k"
proof -
  from assms have "unat k mod 256 = (unat k - 256) mod 256"
    by (simp add: le_mod_geq)
  also from assms have "\<dots> = unat k - 256"
    by simp
  finally show ?thesis
    using assms by (simp add: sweeps_iff)
qed

section \<open>Properties of the early-data state machine\<close>

text \<open>
  C9. For every connection that is not a server, read-early-data returns the Error result
  and raises should-not-have-been-called, whatever the buffer size, the current
  early-data state and the handshake layer, and it leaves the connection, and with it the
  early-data state variable, unchanged.
\<close>

theorem read_early_data_client_fails:
  assumes "\<not> server sc"
  shows "SSL_read_early_data env (Some sc) num =
           (SSL_READ_EARLY_DATA_ERROR, None, Some ERR_R_SHOULD_NOT_HAVE_BEEN_CALLED, Some sc)"
  using assms by (simp add: SSL_read_early_data_def)

theorem read_early_data_client_fails_witness:
  "\<not> server example_conn \<and>
   SSL_read_early_data example_statem (Some example_conn) 16 =
     (SSL_READ_EARLY_DATA_ERROR, None, Some ERR_R_SHOULD_NOT_HAVE_BEEN_CALLED,
      Some example_conn)"
proof -
  have h: "\<not> server example_conn" by (simp add: example_conn_def)
  from read_early_data_client_fails [OF h] h show ?thesis by simp
qed

text \<open>
  The same call on a server in the same state goes on to the handshake instead, so the
  role is what decides.
\<close>

lemma read_early_data_server_proceeds:
  "fst (SSL_read_early_data example_statem (Some example_server) 16) =
     SSL_READ_EARLY_DATA_FINISH"
  by (simp add: SSL_read_early_data_def early_accept_retry_def early_read_retry_def
        example_statem_def example_server_def example_conn_def SSL_EARLY_DATA_ACCEPTED_def)

section \<open>Properties of duplication\<close>

subsection \<open>What the steps of \<open>SSL_dup\<close> leave alone\<close>

lemma frame_refl: "frame st st r"
  by (simp add: frame_def)

lemma frame_trans: "frame st st' r \<Longrightarrow> frame st' st'' r \<Longrightarrow> frame st st'' r"
  by (simp add: frame_def)

lemma frame_ssl_upd:
  "(\<And>obj. hdr (f obj) = hdr obj) \<Longrightarrow> frame st (ssl_upd st r f) r"
  by (auto simp: frame_def ssl_upd_def split: option.splits)

lemma frame_conn_upd: "frame st (conn_upd st r f) r"
  unfolding conn_upd_def by (rule frame_ssl_upd) (simp add: hdr_def)

lemma frame_upd_cert:
  "(\<And>obj. hdr (f obj) = hdr obj) \<Longrightarrow> frame st (ssl_upd (st\<lparr>cert_refs := cr\<rparr>) r f) r"
  "(\<And>obj. hdr (f obj) = hdr obj) \<Longrightarrow>
     frame st (ssl_upd (st\<lparr>cert_refs := cr, next_addr := na\<rparr>) r f) r"
  by (auto simp: frame_def ssl_upd_def split: option.splits)

lemma frame_set_session_id_context:
  "SSL_set_session_id_context st r ident len = (rv, st') \<Longrightarrow> frame st st' r"
  by (auto simp: SSL_set_session_id_context_def frame_refl frame_conn_upd
           split: option.splits if_splits)

lemma frame_set_ssl_method:
  "SSL_set_ssl_method env st r meth = (rv, st') \<Longrightarrow> frame st st' r"
  by (auto simp: SSL_set_ssl_method_def frame_refl hdr_def intro!: frame_ssl_upd
           split: option.splits if_splits)

lemma frame_dup_without_session:
  assumes "dup_without_session env st r obj sc = (rv, st')"
  shows "frame st st' r"
proof -
  obtain r1 st1 where m: "SSL_set_ssl_method env st r (ssl_method obj) = (r1, st1)"
    by (cases "SSL_set_ssl_method env st r (ssl_method obj)") auto
  note f1 = frame_set_ssl_method[OF m]
  show ?thesis
  proof (cases "r1 = 0")
    case True
    with assms m f1 show ?thesis by (simp add: dup_without_session_def)
  next
    case False
    define mid where "mid = (if cert obj \<noteq> None then
                    (case ssl_objs st1 r of
                       None \<Rightarrow> (0::int, st1)
                     | Some robj \<Rightarrow>
                         (let refs = ref_down_opt (cert_refs st1) (cert robj) in
                          if \<not> cert_dup_ok env
                          then (0, ssl_upd (st1\<lparr>cert_refs := refs\<rparr>) r (\<lambda>k. k\<lparr>cert := None\<rparr>))
                          else
                            (let ce = next_addr st1 in
                             (1, ssl_upd (st1\<lparr>cert_refs := refs(ce \<mapsto> 1), next_addr := Suc ce\<rparr>)
                                   r (\<lambda>k. k\<lparr>cert := Some ce\<rparr>)))))
                  else (1, st1))"
    obtain r2 st2 where mid: "mid = (r2, st2)" by (cases mid) auto
    have f2: "frame st1 st2 r"
      using mid unfolding mid_def
      by (auto simp: Let_def frame_refl hdr_def intro!: frame_upd_cert
               split: if_splits option.splits)
    from assms m False mid have
      res: "(if r2 = 0 then (0, st2)
             else SSL_set_session_id_context st2 r (sid_ctx sc) (sid_ctx_length sc)) = (rv, st')"
      by (simp add: dup_without_session_def mid_def)
    have "frame st2 st' r"
      using res by (auto simp: frame_refl dest: frame_set_session_id_context split: if_splits)
    with f1 f2 show ?thesis by (blast intro: frame_trans)
  qed
qed

lemma frame_sess_frame:
  "frame_sess st st' r se \<Longrightarrow> frame st' st'' r \<Longrightarrow> frame_sess st st'' r se"
  by (simp add: frame_sess_def frame_def)

lemma frame_to_sess:
  "frame st st' r \<Longrightarrow> ssl_objs st r = Some robj \<Longrightarrow> session robj = None \<Longrightarrow>
   frame_sess st st' r None"
  by (auto simp: frame_sess_def frame_def ref_up_opt_def hdr_def)

lemma frame_sess_set_session:
  assumes "SSL_set_session env st r se = (rv, st')" and "rv \<noteq> 0"
    and "ssl_objs st r = Some robj" and "session robj = None"
  shows "frame_sess st st' r se"
  using assms
  by (auto simp: SSL_set_session_def frame_sess_def ssl_upd_def Let_def ref_down_opt_def hdr_def
           split: if_splits)

lemma frame_sess_copy_session_id:
  assumes "SSL_copy_session_id env st r a = (rv, st')" and "rv \<noteq> 0"
    and "ssl_objs st r = Some robj" and "session robj = None"
    and "ssl_objs st a = Some obj"
  shows "frame_sess st st' r (session obj)"
proof -
  from assms obtain tsc fsc where c: "conn robj = Some tsc" "conn obj = Some fsc"
    by (auto simp: SSL_copy_session_id_def split: option.splits)
  obtain r1 st1 where s1: "SSL_set_session env st r (session obj) = (r1, st1)"
    by (cases "SSL_set_session env st r (session obj)") auto
  with assms c have r1: "r1 \<noteq> 0"
    by (auto simp: SSL_copy_session_id_def split: if_splits)
  note f1 = frame_sess_set_session[OF s1 r1 assms(3,4)]
  define mid where "mid = (if ssl_method robj \<noteq> ssl_method obj
                            then ((if method_init_ok env then 1 else 0 :: int),
                                  ssl_upd st1 r (\<lambda>k. k\<lparr>ssl_method := ssl_method obj\<rparr>))
                            else (1, st1))"
  obtain r2 st2 where mid: "mid = (r2, st2)" by (cases mid) auto
  have f2: "frame st1 st2 r"
    using mid unfolding mid_def
    by (auto simp: frame_refl hdr_def intro!: frame_ssl_upd split: if_splits)
  define st3 where "st3 = ssl_upd (st2\<lparr>cert_refs :=
        ref_down_opt (ref_up_opt (cert_refs st2) (cert obj)) (cert robj)\<rparr>) r
                                         (\<lambda>k. k\<lparr>cert := cert obj\<rparr>)"
  have f3: "frame st2 st3 r"
    unfolding st3_def by (rule frame_upd_cert) (simp add: hdr_def)
  from assms(1,2) c s1 r1 mid assms(3,5) have
    "SSL_set_session_id_context st3 r (sid_ctx fsc) (sid_ctx_length fsc) = (rv, st')"
    by (auto simp: SSL_copy_session_id_def mid_def st3_def Let_def split: if_splits)
  then have f4: "frame st3 st' r" by (rule frame_set_session_id_context)
  from f1 f2 f3 f4 show ?thesis by (blast intro: frame_sess_frame)
qed

lemma frame_sess_dup_body:
  assumes "dup_body env st r a obj sc = (rv, st')" and "rv \<noteq> 0"
    and "ssl_objs st r = Some robj" and "session robj = None"
    and "ssl_objs st a = Some obj"
  shows "frame_sess st st' r (session obj)"
proof -
  from assms have cr: "conn robj \<noteq> None"
    by (auto simp: dup_body_def split: if_splits)
  define first where "first = (if session obj \<noteq> None then SSL_copy_session_id env st r a
               else dup_without_session env st r obj sc)"
  obtain r1 st1 where fst: "first = (r1, st1)" by (cases first) auto
  from assms(1,2,3) cr fst have r1: "r1 \<noteq> 0"
    by (auto simp: dup_body_def first_def split: if_splits)
  have f1: "frame_sess st st1 r (session obj)"
  proof (cases "session obj")
    case None
    with fst have "dup_without_session env st r obj sc = (r1, st1)" by (simp add: first_def)
    from frame_to_sess[OF frame_dup_without_session[OF this] assms(3,4)] None
    show ?thesis by simp
  next
    case (Some p)
    with fst have "SSL_copy_session_id env st r a = (r1, st1)" by (simp add: first_def)
    from frame_sess_copy_session_id[OF this r1 assms(3,4,5)] show ?thesis .
  qed
  from assms(1,2,3) cr fst r1 obtain robj1 retsc where
    o1: "ssl_objs st1 r = Some robj1" "conn robj1 = Some retsc"
    by (auto simp: dup_body_def first_def split: if_splits option.splits)
  obtain r2 to_dane where dd: "ssl_dane_dup (tlsa_env env) (dane_reserve_ok env)
                                 (case ctx_objs st1 (ctx robj1) of
                                    None \<Rightarrow> dctx (dane retsc)
                                  | Some co \<Rightarrow> ctx_dane co)
                                 (dane retsc) (dane sc) = (r2, to_dane)"
    by (cases "ssl_dane_dup (tlsa_env env) (dane_reserve_ok env)
                                 (case ctx_objs st1 (ctx robj1) of
                                    None \<Rightarrow> dctx (dane retsc)
                                  | Some co \<Rightarrow> ctx_dane co)
                                 (dane retsc) (dane sc)") auto
  from assms(1,2,3) cr fst r1 o1 dd have
    "st' = conn_upd (conn_upd st1 r (\<lambda>k. dup_settings sc (k\<lparr>dane := to_dane\<rparr>))) r (dup_role sc)"
    by (auto simp: dup_body_def first_def Let_def split: if_splits)
  then have "frame st1 st' r"
    by (auto intro: frame_trans frame_conn_upd)
  with f1 show ?thesis by (rule frame_sess_frame)
qed

lemma SSL_new_Some:
  assumes "SSL_new env st (Some c) = (st1, Some r)"
  shows "r = next_addr st \<and> session_refs st1 = session_refs st \<and>
         ssl_objs st1 = (ssl_objs st)(r \<mapsto> \<lparr>references = 1, ctx = c,
            ssl_method = the (ctx_method (the (ctx_objs st c))), session = None,
            cert = Some (Suc r), conn = Some (new_conn env)\<rparr>)"
  using assms
  by (auto simp: SSL_new_def Let_def ctx_ref_def split: option.splits if_splits)

lemmas dup_eval =
  SSL_dup_def SSL_new_def dup_body_def SSL_copy_session_id_def SSL_set_session_def
  SSL_set_session_id_context_def ssl_dane_dup_def DANETLS_ENABLED_def sk_num_def
  dane_final_def dup_settings_def dup_role_def X509_VERIFY_PARAM_inherit_def
  ssl_upd_def conn_upd_def ref_up_def ref_down_def ref_up_opt_def ref_down_opt_def
  ctx_ref_def memcpy_def SSL_MAX_SID_CTX_LENGTH_def Let_def
  example_store_def example_obj_def example_conn_def example_dane_def
  example_dup_env_def example_statem_def statem_mid_handshake_def

subsection \<open>When \<open>SSL_dup\<close> shares and when it copies (C3)\<close>

text \<open>
  C3, as stated, fails: on a connection that is in the middle of a handshake (in its
  handshake phase, no longer before it) \<open>SSL_dup\<close> returns the handle it was given, with
  the reference count raised from 1 to 2, and allocates nothing.
\<close>

theorem SSL_dup_mid_handshake_counterexample:
  "SSL_in_init statem_mid_handshake example_conn \<and>
   \<not> SSL_in_before statem_mid_handshake example_conn \<and>
   snd (SSL_dup statem_mid_handshake example_dup_env example_store (Some 10)) = Some 10 \<and>
   map_option references
     (ssl_objs (fst (SSL_dup statem_mid_handshake example_dup_env example_store (Some 10))) 10) =
     Some 2 \<and>
   ssl_objs (fst (SSL_dup statem_mid_handshake example_dup_env example_store (Some 10)))
     (next_addr example_store) = None \<and>
   next_addr (fst (SSL_dup statem_mid_handshake example_dup_env example_store (Some 10))) =
     next_addr example_store"
  by (simp add: dup_eval)

text \<open>
  C3 (amended). The two cases are the other way round. duplicate on a connection that is
  not quiescent (its handshake has started or is over: it is not both in its handshake
  phase and before any handshake progress) returns a second reference to the same
  object, with its reference count increased by exactly one and no new connection object
  allocated. duplicate on a quiescent connection (in its handshake phase and before any
  handshake progress), when it succeeds, returns a distinct newly allocated object from
  the same factory that shares the session (if one exists) via reference increment, with
  the new object's own reference count at one, and leaves the source object untouched.
\<close>

theorem SSL_dup_shares_or_copies:
  assumes "ssl_objs st a = Some obj" and "conn obj = Some sc" and "next_addr_free st"
  shows "(\<not> (SSL_in_init henv sc \<and> SSL_in_before henv sc) \<longrightarrow>
            SSL_dup henv env st (Some a) =
              (st\<lparr>ssl_objs := (ssl_objs st)(a \<mapsto> obj\<lparr>references := references obj + 1\<rparr>)\<rparr>,
               Some a)) \<and>
         (SSL_in_init henv sc \<and> SSL_in_before henv sc \<and>
          SSL_dup henv env st (Some a) = (st', Some r) \<longrightarrow>
            r \<noteq> a \<and> ssl_objs st r = None \<and> ssl_objs st' a = Some obj \<and>
            (\<exists>robj. ssl_objs st' r = Some robj \<and> references robj = 1 \<and>
                    ctx robj = ctx obj \<and> session robj = session obj) \<and>
            session_refs st' = ref_up_opt (session_refs st) (session obj))"
proof (rule conjI; rule impI)
  assume "\<not> (SSL_in_init henv sc \<and> SSL_in_before henv sc)"
  with assms(1,2) show "SSL_dup henv env st (Some a) =
              (st\<lparr>ssl_objs := (ssl_objs st)(a \<mapsto> obj\<lparr>references := references obj + 1\<rparr>)\<rparr>,
               Some a)"
    by (auto simp: SSL_dup_def)
next
  assume q: "SSL_in_init henv sc \<and> SSL_in_before henv sc \<and>
          SSL_dup henv env st (Some a) = (st', Some r)"
  obtain st1 r1 where new: "SSL_new env st (Some (ctx obj)) = (st1, r1)"
    by (cases "SSL_new env st (Some (ctx obj))") auto
  with q assms(1,2) have r1: "r1 = Some r"
    by (auto simp: SSL_dup_def split: option.splits prod.splits if_splits)
  note n = SSL_new_Some[OF new[unfolded r1]]
  from n assms(3) have fresh: "ssl_objs st r = None" by (simp add: next_addr_free_def)
  with assms(1) have ne: "r \<noteq> a" by auto
  obtain ok st2 where body: "dup_body env st1 r a obj sc = (ok, st2)"
    by (cases "dup_body env st1 r a obj sc") auto
  with q assms(1,2) new r1 have ok: "ok \<noteq> 0" and st': "st' = st2"
    by (auto simp: SSL_dup_def split: if_splits)
  from n obtain robj0 where r0: "ssl_objs st1 r = Some robj0" "session robj0 = None"
    "references robj0 = 1" "ctx robj0 = ctx obj"
    by auto
  from n ne assms(1) have a1: "ssl_objs st1 a = Some obj" by simp
  from frame_sess_dup_body[OF body ok r0(1,2) a1] have
    fs: "frame_sess st1 st2 r (session obj)" .
  from fs ne a1 have "ssl_objs st2 a = Some obj" by (simp add: frame_sess_def)
  moreover from fs r0 have "\<exists>robj. ssl_objs st2 r = Some robj \<and> references robj = 1 \<and>
                    ctx robj = ctx obj \<and> session robj = session obj"
    by (auto simp: frame_sess_def hdr_def)
  moreover from fs n have "session_refs st2 = ref_up_opt (session_refs st) (session obj)"
    by (simp add: frame_sess_def)
  ultimately show "r \<noteq> a \<and> ssl_objs st r = None \<and> ssl_objs st' a = Some obj \<and>
            (\<exists>robj. ssl_objs st' r = Some robj \<and> references robj = 1 \<and>
                    ctx robj = ctx obj \<and> session robj = session obj) \<and>
            session_refs st' = ref_up_opt (session_refs st) (session obj)"
    using ne fresh st' by simp
qed

text \<open>
  Both cases on the example store: mid-handshake, the handle comes back with its count
  raised; quiescent, a new object appears at the next free address, the source object is
  as it was and the session's count went up.
\<close>

theorem SSL_dup_shares_or_copies_witness:
  "ssl_objs example_store 10 = Some example_obj \<and> conn example_obj = Some example_conn \<and>
   next_addr_free example_store \<and>
   SSL_dup statem_mid_handshake example_dup_env example_store (Some 10) =
     (example_store\<lparr>ssl_objs := (ssl_objs example_store)
         (10 \<mapsto> example_obj\<lparr>references := references example_obj + 1\<rparr>)\<rparr>, Some 10) \<and>
   snd (SSL_dup example_statem example_dup_env example_store (Some 10)) = Some 100 \<and>
   ssl_objs example_store 100 = None \<and>
   ssl_objs (fst (SSL_dup example_statem example_dup_env example_store (Some 10))) 10 =
     Some example_obj \<and>
   session_refs (fst (SSL_dup example_statem example_dup_env example_store (Some 10))) =
     ref_up_opt (session_refs example_store) (session example_obj)"
proof -
  let ?q = "SSL_dup example_statem example_dup_env example_store (Some 10)"
  have h1: "ssl_objs example_store 10 = Some example_obj" by (simp add: example_store_def)
  have h2: "conn example_obj = Some example_conn" by (simp add: example_obj_def)
  have h3: "next_addr_free example_store" by (simp add: next_addr_free_def example_store_def)
  have m: "\<not> (SSL_in_init statem_mid_handshake example_conn \<and>
              SSL_in_before statem_mid_handshake example_conn)"
    by (simp add: statem_mid_handshake_def)
  have r: "snd ?q = Some 100" by (simp add: dup_eval)
  have q: "SSL_in_init example_statem example_conn \<and>
           SSL_in_before example_statem example_conn \<and> ?q = (fst ?q, Some 100)"
    using r by (simp add: example_statem_def prod_eq_iff)
  from SSL_dup_shares_or_copies [OF h1 h2 h3, of statem_mid_handshake example_dup_env] m
  have c1: "SSL_dup statem_mid_handshake example_dup_env example_store (Some 10) =
     (example_store\<lparr>ssl_objs := (ssl_objs example_store)
         (10 \<mapsto> example_obj\<lparr>references := references example_obj + 1\<rparr>)\<rparr>, Some 10)"
    by blast
  from SSL_dup_shares_or_copies [OF h1 h2 h3, of example_statem example_dup_env "fst ?q" 100] q
  have c2: "ssl_objs example_store 100 = None \<and> ssl_objs (fst ?q) 10 = Some example_obj \<and>
            session_refs (fst ?q) = ref_up_opt (session_refs example_store) (session example_obj)"
    by blast
  from h1 h2 h3 c1 r c2 show ?thesis by blast
qed

lemma SSL_dup_session_count:
  "session_refs (fst (SSL_dup example_statem example_dup_env example_store (Some 10))) 20 =
     Some 2"
  by (simp add: dup_eval)

end
